theory Spec2Isabelle
  imports Main "HOL-Library.Finite_Map" "HOL-Library.Word"
begin

section \<open>Go values\<close>

text \<open>
  A Go slice is either \<open>nil\<close> or a sequence of elements; \<open>len\<close> of a nil slice
  is 0 and ranging over it visits nothing. A Go map is either \<open>nil\<close> or a finite
  mapping; reading a missing key gives no value (\<open>exists = false\<close>).
\<close>

type_synonym 'a slice = "'a list option"

type_synonym ('k, 'v) gomap = "('k, 'v) fmap option"

definition len :: "'a slice \<Rightarrow> nat" where
  "len s = (case s of None \<Rightarrow> 0 | Some xs \<Rightarrow> length xs)"

definition elems :: "'a slice \<Rightarrow> 'a list" where
  "elems s = (case s of None \<Rightarrow> [] | Some xs \<Rightarrow> xs)"

definition maplen :: "('k, 'v) fmap \<Rightarrow> nat" where
  "maplen m = fcard (fmdom m)"

fun strings_Join :: "string list \<Rightarrow> string \<Rightarrow> string" where
  "strings_Join [] sep = []"
| "strings_Join [x] sep = x"
| "strings_Join (x # y # ys) sep = x @ sep @ strings_Join (y # ys) sep"

section \<open>Kubernetes API types used by the comparisons\<close>

record toleration =
  tol_Key :: string
  tol_Operator :: string
  tol_Value :: string
  tol_Effect :: string
  tol_TolerationSeconds :: "64 word option"

record envVar =
  env_Name :: string
  env_Value :: string
  env_ValueFrom :: "string option"

record intOrString =
  ios_Type :: int
  ios_IntVal :: "32 word"
  ios_StrVal :: string

record servicePort =
  port_Name :: string
  port_Protocol :: string
  port_AppProtocol :: "string option"
  port_Port :: "32 word"
  port_TargetPort :: intOrString
  port_NodePort :: "32 word"

section \<open>internal/utils/comparison.go\<close>

definition createTolerationKey :: "toleration \<Rightarrow> string" where
  "createTolerationKey tol =
     (let parts = [];
          parts = parts @ [tol_Key tol];
          parts = parts @ [tol_Operator tol];
          parts = parts @ [tol_Value tol];
          parts = parts @ [tol_Effect tol];
          parts = (if tol_TolerationSeconds tol \<noteq> None
                   then parts @ [''seconds-not-nil'']
                   else parts @ [''seconds-nil''])
      in strings_Join parts ''-'')"

definition TolerationsEqual :: "toleration slice \<Rightarrow> toleration slice \<Rightarrow> bool" where
  "TolerationsEqual a b =
     (if a = None \<and> b = None then True
      else if a = None \<or> b = None then False
      else if len a \<noteq> len b then False
      else
        let tolerationMapA =
              fold (\<lambda>tol m. fmupd (createTolerationKey tol) tol m) (elems a) fmempty
        in list_all (\<lambda>tol. fmlookup tolerationMapA (createTolerationKey tol) \<noteq> None)
             (elems b))"

section \<open>The comparison helpers of the controllers\<close>

definition envVarsEqual :: "envVar slice \<Rightarrow> envVar slice \<Rightarrow> bool" where
  "envVarsEqual a b =
     (if len a \<noteq> len b then False
      else
        let mapA = fold (\<lambda>env m. fmupd (env_Name env) (env_Value env) m) (elems a) fmempty;
            mapB = fold (\<lambda>env m. fmupd (env_Name env) (env_Value env) m) (elems b) fmempty
        in fBall (fmdom mapA) (\<lambda>key.
             case fmlookup mapB key of
               None \<Rightarrow> False
             | Some valueB \<Rightarrow> fmlookup mapA key = Some valueB))"

definition mapsEqual :: "(string, string) gomap \<Rightarrow> (string, string) gomap \<Rightarrow> bool" where
  "mapsEqual a b =
     (if a = None \<and> b = None then True
      else if a = None \<or> b = None then False
      else if maplen (the a) \<noteq> maplen (the b) then False
      else fBall (fmdom (the a)) (\<lambda>key.
             case fmlookup (the b) key of
               None \<Rightarrow> False
             | Some valueB \<Rightarrow> fmlookup (the a) key = Some valueB))"

definition portsEqual :: "servicePort slice \<Rightarrow> servicePort slice \<Rightarrow> bool" where
  "portsEqual a b =
     (if len a \<noteq> len b then False
      else
        let mapA = fold (\<lambda>port m. fmupd (port_Name port) port m) (elems a) fmempty;
            mapB = fold (\<lambda>port m. fmupd (port_Name port) port m) (elems b) fmempty
        in fBall (fmdom mapA) (\<lambda>name.
             case (fmlookup mapA name, fmlookup mapB name) of
               (Some portA, Some portB) \<Rightarrow>
                 \<not> (port_Port portA \<noteq> port_Port portB \<or>
                    port_TargetPort portA \<noteq> port_TargetPort portB \<or>
                    port_Protocol portA \<noteq> port_Protocol portB)
             | _ \<Rightarrow> False))"

definition slicesEqual :: "string slice \<Rightarrow> string slice \<Rightarrow> bool" where
  "slicesEqual a b =
     (if len a \<noteq> len b then False
      else
        let mapA = fold (\<lambda>item m. fmupd item True m) (elems a) fmempty;
            mapB = fold (\<lambda>item m. fmupd item True m) (elems b) fmempty
        in fBall (fmdom mapA) (\<lambda>item.
             case fmlookup mapB item of None \<Rightarrow> False | Some v \<Rightarrow> v))"

section \<open>Errors, durations and reconcile results\<close>

text \<open>
  The errors the API client and the helpers return. \<open>Panic\<close> stands for a Go run-time
  panic (an index out of range), which unwinds through the caller.
\<close>

datatype error =
    NotFound string
  | Conflict string
  | AlreadyOwned string
  | Failure string
  | Panic string

fun IsNotFound :: "error \<Rightarrow> bool" where
  "IsNotFound (NotFound _) = True"
| "IsNotFound _ = False"

fun IsConflict :: "error \<Rightarrow> bool" where
  "IsConflict (Conflict _) = True"
| "IsConflict _ = False"

definition IgnoreNotFound :: "error option \<Rightarrow> error option" where
  "IgnoreNotFound err =
     (case err of None \<Rightarrow> None | Some e \<Rightarrow> if IsNotFound e then None else Some e)"

type_synonym duration = int

definition Millisecond :: duration where
  "Millisecond = 1000000"

definition Second :: duration where
  "Second = 1000 * Millisecond"

record ctrlResult =
  Requeue :: bool
  RequeueAfter :: duration

definition emptyResult :: ctrlResult where
  "emptyResult = \<lparr>Requeue = False, RequeueAfter = 0\<rparr>"

section \<open>Object metadata, owner references and finalizers\<close>

record ownerReference =
  ref_Kind :: string
  ref_Name :: string
  ref_UID :: string
  ref_Controller :: bool

record objectMeta =
  meta_Name :: string
  meta_Namespace :: string
  meta_UID :: string
  meta_CreationTimestamp :: nat
  meta_DeletionTimestamp :: "nat option"
  meta_Labels :: "(string, string) gomap"
  meta_Annotations :: "(string, string) gomap"
  meta_OwnerReferences :: "ownerReference list"
  meta_Finalizers :: "string list"

text \<open>\<open>metav1.Time.IsZero\<close>: the zero time, or a nil pointer to a time.\<close>

definition CreationTimestamp_IsZero :: "objectMeta \<Rightarrow> bool" where
  "CreationTimestamp_IsZero m = (meta_CreationTimestamp m = 0)"

definition DeletionTimestamp_IsZero :: "objectMeta \<Rightarrow> bool" where
  "DeletionTimestamp_IsZero m =
     (case meta_DeletionTimestamp m of None \<Rightarrow> True | Some t \<Rightarrow> t = 0)"

text \<open>
  The finalizer helpers of \<open>controllerutil\<close>: membership, removal of every
  occurrence, and addition when absent.
\<close>

definition ContainsFinalizer :: "objectMeta \<Rightarrow> string \<Rightarrow> bool" where
  "ContainsFinalizer m finalizer = (finalizer \<in> set (meta_Finalizers m))"

definition RemoveFinalizer :: "objectMeta \<Rightarrow> string \<Rightarrow> objectMeta" where
  "RemoveFinalizer m finalizer =
     m\<lparr>meta_Finalizers := filter (\<lambda>f. f \<noteq> finalizer) (meta_Finalizers m)\<rparr>"

definition AddFinalizer :: "objectMeta \<Rightarrow> string \<Rightarrow> objectMeta" where
  "AddFinalizer m finalizer =
     (if finalizer \<in> set (meta_Finalizers m) then m
      else m\<lparr>meta_Finalizers := meta_Finalizers m @ [finalizer]\<rparr>)"

text \<open>
  \<open>controllerutil.SetControllerReference\<close>: the reference to the owner is a
  controller reference; an object already controlled by another owner is refused; the
  reference replaces the one to the same owner or is appended.
\<close>

definition controllerRef :: "string \<Rightarrow> objectMeta \<Rightarrow> ownerReference" where
  "controllerRef kind owner =
     \<lparr>ref_Kind = kind, ref_Name = meta_Name owner, ref_UID = meta_UID owner,
      ref_Controller = True\<rparr>"

definition referSameObject :: "ownerReference \<Rightarrow> ownerReference \<Rightarrow> bool" where
  "referSameObject a b = (ref_Kind a = ref_Kind b \<and> ref_Name a = ref_Name b)"

fun upsertOwnerRef :: "ownerReference \<Rightarrow> ownerReference list \<Rightarrow> ownerReference list" where
  "upsertOwnerRef ref [] = [ref]"
| "upsertOwnerRef ref (r # rs) =
     (if referSameObject r ref then ref # rs else r # upsertOwnerRef ref rs)"

definition SetControllerReference ::
  "string \<Rightarrow> objectMeta \<Rightarrow> objectMeta \<Rightarrow> error + objectMeta" where
  "SetControllerReference kind owner controlled =
     (let ref = controllerRef kind owner in
      case find ref_Controller (meta_OwnerReferences controlled) of
        Some existing \<Rightarrow>
          if \<not> referSameObject existing ref then Inl (AlreadyOwned (ref_Name existing))
          else Inr (controlled\<lparr>meta_OwnerReferences :=
                       upsertOwnerRef ref (meta_OwnerReferences controlled)\<rparr>)
      | None \<Rightarrow>
          Inr (controlled\<lparr>meta_OwnerReferences :=
                  upsertOwnerRef ref (meta_OwnerReferences controlled)\<rparr>))"

section \<open>Managed objects\<close>

record container =
  ctr_Name :: string
  ctr_Image :: string
  ctr_Env :: "envVar slice"

record podTemplateSpec =
  tpl_Labels :: "(string, string) gomap"
  tpl_Annotations :: "(string, string) gomap"
  tpl_NodeSelector :: "(string, string) gomap"
  tpl_Tolerations :: "toleration slice"
  tpl_Containers :: "container list"

record deploymentSpec =
  dspec_Replicas :: "32 word option"
  dspec_Template :: podTemplateSpec

record deployment =
  dep_Meta :: objectMeta
  dep_Spec :: deploymentSpec

record serviceSpec =
  sspec_Selector :: "(string, string) gomap"
  sspec_Ports :: "servicePort slice"
  sspec_Type :: string

record service =
  svc_Meta :: objectMeta
  svc_Spec :: serviceSpec

record issuerRef =
  iref_Name :: string
  iref_Kind :: string

record certificateSpec =
  cspec_DNSNames :: "string slice"
  cspec_IssuerRef :: issuerRef
  cspec_SecretName :: string

record certificate =
  cert_Meta :: objectMeta
  cert_Spec :: certificateSpec

record serviceReference =
  sref_Name :: string
  sref_Namespace :: string

record matchCondition =
  mc_Name :: string
  mc_Expression :: string

record webhook =
  wh_Name :: string
  wh_Rules :: "string list"
  wh_ClientConfigService :: "serviceReference option"
  wh_AdmissionReviewVersions :: "string list"
  wh_MatchConditions :: "matchCondition list"

record webhookConfiguration =
  whc_Meta :: objectMeta
  whc_Webhooks :: "webhook list"

record issuer =
  iss_Meta :: objectMeta
  iss_SelfSigned :: bool

record overcommit =
  oc_Meta :: objectMeta
  oc_Label :: string

section \<open>internal/controller/overcommit/utils.go: the safe status writer\<close>

text \<open>
  The API server as the status writer meets it: \<open>se_Get k\<close> is the error of the fetch
  of the \<open>cluster\<close> object in attempt \<open>k\<close> (\<open>None\<close> when the object is returned), and
  \<open>se_StatusUpdate k\<close> the error of the status write that ends \<open>updateOvercommitStatus\<close>
  in attempt \<open>k\<close>. None of the reads by which \<open>updateOvercommitStatus\<close> fills the
  readiness rows returns its error, so the error of the status write is the only one
  \<open>updateOvercommitStatus\<close> can return.
\<close>

record statusEnv =
  se_Get :: "nat \<Rightarrow> error option"
  se_StatusUpdate :: "nat \<Rightarrow> error option"

datatype statusEvent = Fetch nat | StatusWrite nat | Sleep duration

definition updateOvercommitStatus :: "statusEnv \<Rightarrow> nat \<Rightarrow> error option" where
  "updateOvercommitStatus env attempt = se_StatusUpdate env attempt"

definition maxRetries :: nat where
  "maxRetries = 5"

function statusLoop :: "statusEnv \<Rightarrow> nat \<Rightarrow> error option \<times> statusEvent list" where
  "statusLoop env attempt =
     (if attempt < maxRetries then
        (case se_Get env attempt of
           Some err \<Rightarrow>
             if IgnoreNotFound (Some err) \<noteq> None then (Some err, [Fetch attempt])
             else (None, [Fetch attempt])
         | None \<Rightarrow>
             (case updateOvercommitStatus env attempt of
                Some err \<Rightarrow>
                  if attempt = maxRetries - 1
                  then (Some err, [Fetch attempt, StatusWrite attempt])
                  else if IsConflict err then
                    (case statusLoop env (attempt + 1) of
                       (r, evs) \<Rightarrow>
                         (r, [Fetch attempt, StatusWrite attempt,
                              Sleep (2 ^ attempt * 50 * Millisecond)] @ evs))
                  else (Some err, [Fetch attempt, StatusWrite attempt])
              | None \<Rightarrow> (None, [Fetch attempt, StatusWrite attempt])))
      else (Some (Failure ''failed to update status after 5 attempts''), []))"
  by pat_completeness auto
termination
  by (relation "measure (\<lambda>(env, attempt). maxRetries - attempt)") auto

definition updateOvercommitStatusSafely :: "statusEnv \<Rightarrow> error option \<times> statusEvent list" where
  "updateOvercommitStatusSafely env = statusLoop env 0"

section \<open>controllerutil.CreateOrUpdate\<close>

text \<open>
  What the API server answers for one managed object: \<open>slot_Get\<close> is the read that
  opens \<open>CreateOrUpdate\<close> (a not-found error when the object does not exist yet),
  \<open>slot_Write\<close> the create or update of the mutated object, answering the object as
  stored. \<open>CreateOrUpdate\<close> reads the object, runs the mutate function on the generated
  object (not found) or on the existing one, and writes when the object is new or the
  mutate function changed it. It returns the operation, the error and the object as the
  caller's variable holds it afterwards.
\<close>

record 'o slot =
  slot_Get :: "error + 'o"
  slot_Write :: "'o \<Rightarrow> error + 'o"

datatype operationResult =
  OperationResultNone | OperationResultCreated | OperationResultUpdated

definition CreateOrUpdate ::
  "'o slot \<Rightarrow> 'o \<Rightarrow> ('o \<Rightarrow> error + 'o) \<Rightarrow> operationResult \<times> error option \<times> 'o" where
  "CreateOrUpdate c obj f =
     (case slot_Get c of
        Inl err \<Rightarrow>
          if \<not> IsNotFound err then (OperationResultNone, Some err, obj)
          else
            (case f obj of
               Inl e \<Rightarrow> (OperationResultNone, Some e, obj)
             | Inr mutated \<Rightarrow>
                 (case slot_Write c mutated of
                    Inl e \<Rightarrow> (OperationResultNone, Some e, mutated)
                  | Inr stored \<Rightarrow> (OperationResultCreated, None, stored)))
      | Inr existing \<Rightarrow>
          (case f existing of
             Inl e \<Rightarrow> (OperationResultNone, Some e, existing)
           | Inr mutated \<Rightarrow>
               if mutated = existing then (OperationResultNone, None, mutated)
               else
                 (case slot_Write c mutated of
                    Inl e \<Rightarrow> (OperationResultNone, Some e, mutated)
                  | Inr stored \<Rightarrow> (OperationResultUpdated, None, stored))))"

section \<open>The singleton reconciler: mutate functions\<close>

definition template :: "deployment \<Rightarrow> podTemplateSpec" where
  "template d = dspec_Template (dep_Spec d)"

definition containers :: "deployment \<Rightarrow> container list" where
  "containers d = tpl_Containers (template d)"

definition container0 :: "deployment \<Rightarrow> container" where
  "container0 d = hd (containers d)"

definition updTemplate :: "(podTemplateSpec \<Rightarrow> podTemplateSpec) \<Rightarrow> deployment \<Rightarrow> deployment" where
  "updTemplate f d = d\<lparr>dep_Spec := (dep_Spec d)\<lparr>dspec_Template := f (template d)\<rparr>\<rparr>"

definition updContainer0 :: "(container \<Rightarrow> container) \<Rightarrow> deployment \<Rightarrow> deployment" where
  "updContainer0 f d =
     updTemplate (\<lambda>t. t\<lparr>tpl_Containers :=
       (case tpl_Containers t of [] \<Rightarrow> [] | c # cs \<Rightarrow> f c # cs)\<rparr>) d"

definition indexPanic :: error where
  "indexPanic = Panic ''index out of range [0] with length 0''"

text \<open>The image every managed deployment runs, read from the process environment.\<close>

definition operatorImage :: "(string \<Rightarrow> string) \<Rightarrow> string" where
  "operatorImage getenv =
     getenv ''IMAGE_REGISTRY'' @ ''/'' @ getenv ''IMAGE_REPOSITORY'' @ '':'' @ getenv ''APP_VERSION''"

definition mutateIssuer :: "overcommit \<Rightarrow> issuer \<Rightarrow> error + issuer" where
  "mutateIssuer overcommit issuer =
     (if CreationTimestamp_IsZero (iss_Meta issuer) then
        (case SetControllerReference ''Overcommit'' (oc_Meta overcommit) (iss_Meta issuer) of
           Inl e \<Rightarrow> Inl e
         | Inr m \<Rightarrow> Inr (issuer\<lparr>iss_Meta := m\<rparr>))
      else Inr issuer)"

definition mutateCertificate :: "overcommit \<Rightarrow> certificate \<Rightarrow> certificate \<Rightarrow> error + certificate" where
  "mutateCertificate overcommit updatedCertificate certificate =
     (if CreationTimestamp_IsZero (cert_Meta certificate) then
        let certificate = certificate\<lparr>cert_Spec := cert_Spec updatedCertificate\<rparr> in
        (case SetControllerReference ''Overcommit'' (oc_Meta overcommit) (cert_Meta certificate) of
           Inl e \<Rightarrow> Inl e
         | Inr m \<Rightarrow> Inr (certificate\<lparr>cert_Meta := m\<rparr>))
      else Inr certificate)"

definition mutateService :: "overcommit \<Rightarrow> service \<Rightarrow> service \<Rightarrow> error + service" where
  "mutateService overcommit updatedService service =
     (if CreationTimestamp_IsZero (svc_Meta service) then
        let service = service\<lparr>svc_Spec := svc_Spec updatedService\<rparr> in
        (case SetControllerReference ''Overcommit'' (oc_Meta overcommit) (svc_Meta service) of
           Inl e \<Rightarrow> Inl e
         | Inr m \<Rightarrow> Inr (service\<lparr>svc_Meta := m\<rparr>))
      else Inr service)"

definition mutateOvercommitClassWebhook ::
  "overcommit \<Rightarrow> webhookConfiguration \<Rightarrow> webhookConfiguration \<Rightarrow> error + webhookConfiguration" where
  "mutateOvercommitClassWebhook overcommit updatedWebhook webhook =
     (if CreationTimestamp_IsZero (whc_Meta webhook) then
        let webhook = webhook\<lparr>whc_Meta := (whc_Meta webhook)
                        \<lparr>meta_Annotations := meta_Annotations (whc_Meta updatedWebhook)\<rparr>\<rparr>;
            webhook = webhook\<lparr>whc_Webhooks := whc_Webhooks updatedWebhook\<rparr>
        in
        (case SetControllerReference ''Overcommit'' (oc_Meta overcommit) (whc_Meta webhook) of
           Inl e \<Rightarrow> Inl e
         | Inr m \<Rightarrow> Inr (webhook\<lparr>whc_Meta := m\<rparr>))
      else Inr webhook)"

definition mutatePodWebhook ::
  "overcommit \<Rightarrow> webhookConfiguration \<Rightarrow> webhookConfiguration \<Rightarrow> error + webhookConfiguration" where
  "mutatePodWebhook overcommit updatedWebhook webhook =
     (if CreationTimestamp_IsZero (whc_Meta webhook) then
        let webhook = webhook\<lparr>whc_Webhooks := whc_Webhooks updatedWebhook\<rparr> in
        (case SetControllerReference ''Overcommit'' (oc_Meta overcommit) (whc_Meta webhook) of
           Inl e \<Rightarrow> Inl e
         | Inr m \<Rightarrow> Inr (webhook\<lparr>whc_Meta := m\<rparr>))
      else Inr webhook)"

text \<open>
  The mutate function of the three deployments (the OvercommitClass validator, the pod
  validator and the OvercommitClass controller): \<open>generated\<close> is the deployment the
  generator returns for the Overcommit object, \<open>img\<close> the image read from the
  environment, \<open>deployment\<close> the object \<open>CreateOrUpdate\<close> hands over.
\<close>

definition mutateDeployment ::
  "overcommit \<Rightarrow> string \<Rightarrow> deployment \<Rightarrow> deployment \<Rightarrow> error + deployment" where
  "mutateDeployment overcommit img generated deployment =
     (case containers generated of
        [] \<Rightarrow> Inl indexPanic
      | _ # _ \<Rightarrow>
        let updatedDeployment = updContainer0 (\<lambda>c. c\<lparr>ctr_Image := img\<rparr>) generated in
        if CreationTimestamp_IsZero (dep_Meta deployment) then
          let deployment = deployment\<lparr>dep_Spec := dep_Spec updatedDeployment\<rparr>;
              deployment = deployment\<lparr>dep_Meta := (dep_Meta deployment)
                             \<lparr>meta_Labels := meta_Labels (dep_Meta updatedDeployment)\<rparr>\<rparr>;
              deployment = deployment\<lparr>dep_Meta := (dep_Meta deployment)
                             \<lparr>meta_Annotations := meta_Annotations (dep_Meta updatedDeployment)\<rparr>\<rparr>
          in
          (case SetControllerReference ''Overcommit'' (oc_Meta overcommit) (dep_Meta deployment) of
             Inl e \<Rightarrow> Inl e
           | Inr m \<Rightarrow> Inr (deployment\<lparr>dep_Meta := m\<rparr>))
        else
          (case containers deployment of
             [] \<Rightarrow> Inl indexPanic
           | _ # _ \<Rightarrow>
             let updated = False;
                 (deployment, updated) =
                   (if ctr_Image (container0 updatedDeployment) \<noteq> ctr_Image (container0 deployment)
                    then (updContainer0
                            (\<lambda>c. c\<lparr>ctr_Image := ctr_Image (container0 updatedDeployment)\<rparr>)
                            deployment, True)
                    else (deployment, updated));
                 (deployment, updated) =
                   (if \<not> envVarsEqual (ctr_Env (container0 updatedDeployment))
                            (ctr_Env (container0 deployment))
                    then (updContainer0
                            (\<lambda>c. c\<lparr>ctr_Env := ctr_Env (container0 updatedDeployment)\<rparr>)
                            deployment, True)
                    else (deployment, updated));
                 (deployment, updated) =
                   (if \<not> mapsEqual (tpl_Annotations (template updatedDeployment))
                            (tpl_Annotations (template deployment))
                    then (updTemplate
                            (\<lambda>t. t\<lparr>tpl_Annotations := tpl_Annotations (template updatedDeployment)\<rparr>)
                            deployment, True)
                    else (deployment, updated));
                 (deployment, updated) =
                   (if \<not> mapsEqual (tpl_Labels (template updatedDeployment))
                            (tpl_Labels (template deployment))
                    then (updTemplate
                            (\<lambda>t. t\<lparr>tpl_Labels := tpl_Labels (template updatedDeployment)\<rparr>)
                            deployment, True)
                    else (deployment, updated));
                 (deployment, updated) =
                   (if \<not> mapsEqual (tpl_NodeSelector (template updatedDeployment))
                            (tpl_NodeSelector (template deployment))
                    then (updTemplate
                            (\<lambda>t. t\<lparr>tpl_NodeSelector := tpl_NodeSelector (template updatedDeployment)\<rparr>)
                            deployment, True)
                    else (deployment, updated));
                 (deployment, updated) =
                   (if \<not> TolerationsEqual (tpl_Tolerations (template updatedDeployment))
                            (tpl_Tolerations (template deployment))
                    then (updTemplate
                            (\<lambda>t. t\<lparr>tpl_Tolerations := tpl_Tolerations (template updatedDeployment)\<rparr>)
                            deployment, True)
                    else (deployment, updated))
             in
             if updated then
               (case SetControllerReference ''Overcommit'' (oc_Meta overcommit) (dep_Meta deployment) of
                  Inl e \<Rightarrow> Inl e
                | Inr m \<Rightarrow> Inr (deployment\<lparr>dep_Meta := m\<rparr>))
             else Inr deployment))"

section \<open>The singleton reconciler: Reconcile\<close>

text \<open>
  The generators of the \<open>resources\<close> package, whose code is not among the sources,
  are parameters. \<open>GenerateIssuer\<close> may return nil.
\<close>

record resources =
  GenerateIssuer :: "issuer option"
  GenerateOvercommitClassValidatingDeployment :: "overcommit \<Rightarrow> deployment"
  GenerateOvercommitClassValidatingService :: "deployment \<Rightarrow> service"
  GenerateCertificateValidatingOvercommitClass :: "issuer \<Rightarrow> service \<Rightarrow> certificate"
  GenerateOvercommitClassValidatingWebhookConfiguration ::
    "deployment \<Rightarrow> service \<Rightarrow> certificate \<Rightarrow> webhookConfiguration"
  GeneratePodValidatingDeployment :: "overcommit \<Rightarrow> deployment"
  GeneratePodValidatingService :: "deployment \<Rightarrow> service"
  GenerateCertificateValidatingPods :: "issuer \<Rightarrow> service \<Rightarrow> certificate"
  GeneratePodValidatingWebhookConfiguration ::
    "deployment \<Rightarrow> service \<Rightarrow> certificate \<Rightarrow> string \<Rightarrow> webhookConfiguration"
  GenerateOvercommitClassControllerDeployment :: "overcommit \<Rightarrow> deployment"

datatype managed =
    Issuer
  | OvercommitClassCertificate
  | OvercommitClassDeployment
  | OvercommitClassService
  | OvercommitClassWebhook
  | PodCertificate
  | PodDeployment
  | PodService
  | PodWebhook
  | OcController

text \<open>
  Everything outside the reconciler that one call of Reconcile meets: the process
  environment, the generators, and the answers of the API server to each request.
\<close>

record world =
  w_resources :: resources
  w_Getenv :: "string \<Rightarrow> string"
  w_GetOvercommitLabel :: "error + string"
  w_Get :: "error + overcommit"
  w_Update :: "overcommit \<Rightarrow> error option"
  w_issuer :: "issuer slot"
  w_overcommitClassCertificate :: "certificate slot"
  w_overcommitClassDeployment :: "deployment slot"
  w_overcommitClassService :: "service slot"
  w_overcommitClassWebhook :: "webhookConfiguration slot"
  w_podCertificate :: "certificate slot"
  w_podDeployment :: "deployment slot"
  w_podService :: "service slot"
  w_podWebhook :: "webhookConfiguration slot"
  w_occontroller :: "deployment slot"
  w_status :: statusEnv

text \<open>
  The requests a call of Reconcile issues, in order, each \<open>CreateOrUpdate\<close> with the
  operation and the error it returned, the status writer with its error.
\<close>

datatype call =
    CallGetOvercommitLabel
  | CallGet
  | CallUpdate overcommit
  | CallCreateOrUpdate managed operationResult "error option"
  | CallUpdateOvercommitStatusSafely "error option"

record 'c outcome =
  out_Result :: ctrlResult
  out_Err :: "error option"
  out_Calls :: "'c list"

definition legacyFinalizers :: "string list" where
  "legacyFinalizers = [''overcommit.finalizer'', ''webhook.finalizer'']"

definition removeLegacyFinalizers :: "overcommit \<Rightarrow> overcommit \<times> bool" where
  "removeLegacyFinalizers overcommit =
     fold (\<lambda>legacyFinalizer (overcommit, finalizerRemoved).
             if ContainsFinalizer (oc_Meta overcommit) legacyFinalizer
             then (overcommit\<lparr>oc_Meta := RemoveFinalizer (oc_Meta overcommit) legacyFinalizer\<rparr>,
                   True)
             else (overcommit, finalizerRemoved))
       legacyFinalizers (overcommit, False)"

text \<open>
  The idiom after each \<open>CreateOrUpdate\<close>: an error is logged and returned with the
  empty result; otherwise the reconcile goes on with the object. For the pod webhook
  configuration a conflict error is logged and the reconcile goes on.
\<close>

definition returnOnError ::
  "call list \<Rightarrow> managed \<Rightarrow> operationResult \<times> error option \<times> 'o \<Rightarrow>
     (call list \<Rightarrow> 'o \<Rightarrow> call outcome) \<Rightarrow> call outcome" where
  "returnOnError calls m r continue =
     (case r of (op, err, obj) \<Rightarrow>
        let calls = calls @ [CallCreateOrUpdate m op err] in
        (case err of
           Some e \<Rightarrow> \<lparr>out_Result = emptyResult, out_Err = err, out_Calls = calls\<rparr>
         | None \<Rightarrow> continue calls obj))"

definition returnUnlessConflict ::
  "call list \<Rightarrow> managed \<Rightarrow> operationResult \<times> error option \<times> 'o \<Rightarrow>
     (call list \<Rightarrow> 'o \<Rightarrow> call outcome) \<Rightarrow> call outcome" where
  "returnUnlessConflict calls m r continue =
     (case r of (op, err, obj) \<Rightarrow>
        let calls = calls @ [CallCreateOrUpdate m op err] in
        (case err of
           Some e \<Rightarrow>
             if IsConflict e then continue calls obj
             else \<lparr>out_Result = emptyResult, out_Err = err, out_Calls = calls\<rparr>
         | None \<Rightarrow> continue calls obj))"

definition reconcileStatus :: "world \<Rightarrow> call list \<Rightarrow> call outcome" where
  "reconcileStatus w calls =
     (let err = fst (updateOvercommitStatusSafely (w_status w)) in
      \<lparr>out_Result = \<lparr>Requeue = False, RequeueAfter = Second * 10\<rparr>,
       out_Err = None,
       out_Calls = calls @ [CallUpdateOvercommitStatusSafely err]\<rparr>)"

definition reconcileManaged ::
  "world \<Rightarrow> string \<Rightarrow> overcommit \<Rightarrow> call list \<Rightarrow> call outcome" where
  "reconcileManaged w label overcommit calls =
     (let R = w_resources w; img = operatorImage (w_Getenv w) in
      case GenerateIssuer R of
        None \<Rightarrow>
          \<lparr>out_Result = emptyResult, out_Err = Some (Failure ''generated issuer is nil''),
           out_Calls = calls\<rparr>
      | Some issuer \<Rightarrow>
      returnOnError calls Issuer
        (CreateOrUpdate (w_issuer w) issuer (mutateIssuer overcommit))
        (\<lambda>calls issuer.
      let overcommitClassDeployment = GenerateOvercommitClassValidatingDeployment R overcommit;
          overcommitClassService = GenerateOvercommitClassValidatingService R overcommitClassDeployment;
          overcommitClassCertificate =
            GenerateCertificateValidatingOvercommitClass R issuer overcommitClassService;
          overcommitClassWebhook =
            GenerateOvercommitClassValidatingWebhookConfiguration R overcommitClassDeployment
              overcommitClassService overcommitClassCertificate
      in
      returnOnError calls OvercommitClassCertificate
        (CreateOrUpdate (w_overcommitClassCertificate w) overcommitClassCertificate
           (mutateCertificate overcommit
              (GenerateCertificateValidatingOvercommitClass R issuer overcommitClassService)))
        (\<lambda>calls overcommitClassCertificate.
      returnOnError calls OvercommitClassDeployment
        (CreateOrUpdate (w_overcommitClassDeployment w) overcommitClassDeployment
           (mutateDeployment overcommit img
              (GenerateOvercommitClassValidatingDeployment R overcommit)))
        (\<lambda>calls overcommitClassDeployment.
      returnOnError calls OvercommitClassService
        (CreateOrUpdate (w_overcommitClassService w) overcommitClassService
           (mutateService overcommit
              (GenerateOvercommitClassValidatingService R overcommitClassDeployment)))
        (\<lambda>calls overcommitClassService.
      returnOnError calls OvercommitClassWebhook
        (CreateOrUpdate (w_overcommitClassWebhook w) overcommitClassWebhook
           (mutateOvercommitClassWebhook overcommit
              (GenerateOvercommitClassValidatingWebhookConfiguration R overcommitClassDeployment
                 overcommitClassService overcommitClassCertificate)))
        (\<lambda>calls overcommitClassWebhook.
      let validatingPodDeployment = GeneratePodValidatingDeployment R overcommit;
          validatingPodService = GeneratePodValidatingService R validatingPodDeployment;
          validatingpodCertificate = GenerateCertificateValidatingPods R issuer validatingPodService;
          validatingPodWebhook =
            GeneratePodValidatingWebhookConfiguration R validatingPodDeployment
              validatingPodService validatingpodCertificate label
      in
      returnOnError calls PodCertificate
        (CreateOrUpdate (w_podCertificate w) validatingpodCertificate
           (mutateCertificate overcommit
              (GenerateCertificateValidatingPods R issuer validatingPodService)))
        (\<lambda>calls validatingpodCertificate.
      returnOnError calls PodDeployment
        (CreateOrUpdate (w_podDeployment w) validatingPodDeployment
           (mutateDeployment overcommit img (GeneratePodValidatingDeployment R overcommit)))
        (\<lambda>calls validatingPodDeployment.
      returnOnError calls PodService
        (CreateOrUpdate (w_podService w) validatingPodService
           (mutateService overcommit (GeneratePodValidatingService R validatingPodDeployment)))
        (\<lambda>calls validatingPodService.
      returnUnlessConflict calls PodWebhook
        (CreateOrUpdate (w_podWebhook w) validatingPodWebhook
           (mutatePodWebhook overcommit
              (GeneratePodValidatingWebhookConfiguration R validatingPodDeployment
                 validatingPodService validatingpodCertificate label)))
        (\<lambda>calls validatingPodWebhook.
      let occontroller = GenerateOvercommitClassControllerDeployment R overcommit in
      returnOnError calls OcController
        (CreateOrUpdate (w_occontroller w) occontroller
           (mutateDeployment overcommit img
              (GenerateOvercommitClassControllerDeployment R overcommit)))
        (\<lambda>calls occontroller.
      reconcileStatus w calls)))))))))))"

definition OvercommitReconciler_Reconcile :: "world \<Rightarrow> call outcome" where
  "OvercommitReconciler_Reconcile w =
     (case w_GetOvercommitLabel w of
        Inl err \<Rightarrow>
          \<lparr>out_Result = emptyResult, out_Err = Some err, out_Calls = [CallGetOvercommitLabel]\<rparr>
      | Inr label \<Rightarrow>
          (case w_Get w of
             Inl err \<Rightarrow>
               if IgnoreNotFound (Some err) \<noteq> None
               then \<lparr>out_Result = emptyResult, out_Err = Some err,
                     out_Calls = [CallGetOvercommitLabel, CallGet]\<rparr>
               else \<lparr>out_Result = emptyResult, out_Err = None,
                     out_Calls = [CallGetOvercommitLabel, CallGet]\<rparr>
           | Inr overcommit \<Rightarrow>
               (case removeLegacyFinalizers overcommit of
                  (overcommit, finalizerRemoved) \<Rightarrow>
                    if finalizerRemoved then
                      (case w_Update w overcommit of
                         Some err \<Rightarrow>
                           \<lparr>out_Result = emptyResult, out_Err = Some err,
                            out_Calls = [CallGetOvercommitLabel, CallGet, CallUpdate overcommit]\<rparr>
                       | None \<Rightarrow>
                           \<lparr>out_Result = \<lparr>Requeue = False, RequeueAfter = Second * 1\<rparr>,
                            out_Err = None,
                            out_Calls = [CallGetOvercommitLabel, CallGet, CallUpdate overcommit]\<rparr>)
                    else reconcileManaged w label overcommit [CallGetOvercommitLabel, CallGet])))"

section \<open>The class reconciler\<close>

text \<open>
  The two copies of the class reconciler among the sources differ only in the mutate
  functions they hand to \<open>CreateOrUpdate\<close>; their control flow is the same. The model
  takes the error of each \<open>CreateOrUpdate\<close> from the world, together with the answers to
  the other requests and the errors of \<open>getTotalClasses\<close> and \<open>updateResourcesStatus\<close>,
  whose code is not among the sources. \<open>cw_generatedNil\<close> tells which generator returns
  nil.
\<close>

record overcommitClass =
  occ_Meta :: objectMeta

datatype classManaged = ClassDeployment | ClassService | ClassCertificate | ClassWebhookConfig

record classWorld =
  cw_GetOvercommitLabel :: "error + string"
  cw_Get :: "error + overcommitClass"
  cw_generatedNil :: "classManaged \<Rightarrow> bool"
  cw_Delete :: "classManaged \<Rightarrow> error option"
  cw_cleanupGetOvercommitLabel :: "error + string"
  cw_Update :: "overcommitClass \<Rightarrow> error option"
  cw_GetOvercommit :: "error + overcommit"
  cw_CreateOrUpdate :: "classManaged \<Rightarrow> error option"
  cw_getTotalClasses :: "error option"
  cw_updateResourcesStatus :: "error option"

datatype classCall =
    ClassCallGetOvercommitLabel
  | ClassCallGet
  | ClassCallDelete classManaged
  | ClassCallUpdate overcommitClass
  | ClassCallGetOvercommit
  | ClassCallCreateOrUpdate classManaged "error option"
  | ClassCallGetTotalClasses "error option"
  | ClassCallUpdateResourcesStatus "error option"

definition nilPanic :: error where
  "nilPanic = Panic ''invalid memory address or nil pointer dereference''"

definition deleteIgnoringNotFound ::
  "classWorld \<Rightarrow> classManaged \<Rightarrow> error option \<times> classCall list" where
  "deleteIgnoringNotFound cw m =
     (if \<not> cw_generatedNil cw m then
        (let err = cw_Delete cw m in
         if err \<noteq> None \<and> IgnoreNotFound err \<noteq> None then (err, [ClassCallDelete m])
         else (None, [ClassCallDelete m]))
      else (None, []))"

definition cleanupResources :: "classWorld \<Rightarrow> error option \<times> classCall list" where
  "cleanupResources cw =
     (case deleteIgnoringNotFound cw ClassDeployment of
        (Some err, calls) \<Rightarrow> (Some err, calls)
      | (None, calls) \<Rightarrow>
     (case deleteIgnoringNotFound cw ClassService of
        (Some err, calls') \<Rightarrow> (Some err, calls @ calls')
      | (None, calls') \<Rightarrow>
     (let calls = calls @ calls' in
      if cw_generatedNil cw ClassService then (Some nilPanic, calls)
      else
     (case deleteIgnoringNotFound cw ClassCertificate of
        (Some err, calls') \<Rightarrow> (Some err, calls @ calls')
      | (None, calls') \<Rightarrow>
     (let calls = calls @ calls' @ [ClassCallGetOvercommitLabel] in
      case cw_cleanupGetOvercommitLabel cw of
        Inl err \<Rightarrow> (Some err, calls)
      | Inr label \<Rightarrow>
          if cw_generatedNil cw ClassCertificate then (Some nilPanic, calls)
          else
            (case deleteIgnoringNotFound cw ClassWebhookConfig of
               (Some err, calls') \<Rightarrow> (Some err, calls @ calls')
             | (None, calls') \<Rightarrow> (None, calls @ calls')))))))"

definition reconcileClassManaged :: "classWorld \<Rightarrow> classCall list \<Rightarrow> classCall outcome" where
  "reconcileClassManaged cw calls =
     (if cw_generatedNil cw ClassService \<or> cw_generatedNil cw ClassCertificate
         \<or> cw_generatedNil cw ClassDeployment
      then \<lparr>out_Result = emptyResult, out_Err = Some nilPanic, out_Calls = calls\<rparr>
      else
      let err = cw_CreateOrUpdate cw ClassDeployment;
          calls = calls @ [ClassCallCreateOrUpdate ClassDeployment err]
      in
      if err \<noteq> None then \<lparr>out_Result = emptyResult, out_Err = err, out_Calls = calls\<rparr>
      else
      let err = cw_CreateOrUpdate cw ClassService;
          calls = calls @ [ClassCallCreateOrUpdate ClassService err]
      in
      if err \<noteq> None then \<lparr>out_Result = emptyResult, out_Err = err, out_Calls = calls\<rparr>
      else
      let err = cw_CreateOrUpdate cw ClassCertificate;
          calls = calls @ [ClassCallCreateOrUpdate ClassCertificate err]
      in
      if err \<noteq> None then \<lparr>out_Result = emptyResult, out_Err = err, out_Calls = calls\<rparr>
      else
      if cw_generatedNil cw ClassWebhookConfig
      then \<lparr>out_Result = emptyResult, out_Err = Some nilPanic, out_Calls = calls\<rparr>
      else
      let err = cw_CreateOrUpdate cw ClassWebhookConfig;
          calls = calls @ [ClassCallCreateOrUpdate ClassWebhookConfig err]
      in
      if err \<noteq> None then \<lparr>out_Result = emptyResult, out_Err = err, out_Calls = calls\<rparr>
      else
      let metrics = cw_getTotalClasses cw;
          calls = calls @ [ClassCallGetTotalClasses metrics]
      in
      if metrics \<noteq> None then \<lparr>out_Result = emptyResult, out_Err = err, out_Calls = calls\<rparr>
      else
      let statusErr = cw_updateResourcesStatus cw;
          calls = calls @ [ClassCallUpdateResourcesStatus statusErr]
      in
      if statusErr \<noteq> None
      then \<lparr>out_Result = emptyResult, out_Err = statusErr, out_Calls = calls\<rparr>
      else \<lparr>out_Result = \<lparr>Requeue = False, RequeueAfter = 10 * Second\<rparr>, out_Err = None,
            out_Calls = calls\<rparr>)"

definition needsOwnerUpdate :: "overcommitClass \<Rightarrow> overcommit \<Rightarrow> bool" where
  "needsOwnerUpdate overcommitClass overcommitResource =
     (if length (meta_OwnerReferences (occ_Meta overcommitClass)) = 0 then True
      else
        let hasCorrectOwner =
              list_ex (\<lambda>ownerRef. ref_UID ownerRef = meta_UID (oc_Meta overcommitResource)
                                 \<and> ref_Kind ownerRef = ''Overcommit'')
                (meta_OwnerReferences (occ_Meta overcommitClass))
        in \<not> hasCorrectOwner)"

definition OvercommitClassReconciler_Reconcile :: "classWorld \<Rightarrow> classCall outcome" where
  "OvercommitClassReconciler_Reconcile cw =
     (case cw_GetOvercommitLabel cw of
        Inl err \<Rightarrow>
          \<lparr>out_Result = emptyResult, out_Err = Some err,
           out_Calls = [ClassCallGetOvercommitLabel]\<rparr>
      | Inr label \<Rightarrow>
     (let calls = [ClassCallGetOvercommitLabel, ClassCallGet] in
      case cw_Get cw of
        Inl err \<Rightarrow>
          if IgnoreNotFound (Some err) \<noteq> None
          then \<lparr>out_Result = emptyResult, out_Err = Some err, out_Calls = calls\<rparr>
          else \<lparr>out_Result = emptyResult, out_Err = None, out_Calls = calls\<rparr>
      | Inr overcommitClass \<Rightarrow>
          if \<not> DeletionTimestamp_IsZero (occ_Meta overcommitClass) then
            (case cleanupResources cw of
               (Some err, cleanupCalls) \<Rightarrow>
                 \<lparr>out_Result = emptyResult, out_Err = Some err, out_Calls = calls @ cleanupCalls\<rparr>
             | (None, cleanupCalls) \<Rightarrow>
                 let overcommitClass = overcommitClass\<lparr>occ_Meta :=
                       RemoveFinalizer (occ_Meta overcommitClass) ''overcommitclass.finalizer''\<rparr>;
                     calls = calls @ cleanupCalls @ [ClassCallUpdate overcommitClass]
                 in \<lparr>out_Result = emptyResult, out_Err = cw_Update cw overcommitClass,
                     out_Calls = calls\<rparr>)
          else if \<not> ContainsFinalizer (occ_Meta overcommitClass) ''overcommitclass.finalizer'' then
            (let overcommitClass = overcommitClass\<lparr>occ_Meta :=
                   AddFinalizer (occ_Meta overcommitClass) ''overcommitclass.finalizer''\<rparr>;
                 calls = calls @ [ClassCallUpdate overcommitClass]
             in \<lparr>out_Result = emptyResult, out_Err = cw_Update cw overcommitClass,
                 out_Calls = calls\<rparr>)
          else
            (let calls = calls @ [ClassCallGetOvercommit] in
             case cw_GetOvercommit cw of
               Inl err \<Rightarrow> \<lparr>out_Result = emptyResult, out_Err = Some err, out_Calls = calls\<rparr>
             | Inr overcommitResource \<Rightarrow>
                 if needsOwnerUpdate overcommitClass overcommitResource then
                   (case SetControllerReference ''Overcommit'' (oc_Meta overcommitResource)
                           (occ_Meta overcommitClass) of
                      Inl err \<Rightarrow>
                        \<lparr>out_Result = emptyResult, out_Err = Some err, out_Calls = calls\<rparr>
                    | Inr m \<Rightarrow>
                        let overcommitClass = overcommitClass\<lparr>occ_Meta := m\<rparr>;
                            calls = calls @ [ClassCallUpdate overcommitClass]
                        in \<lparr>out_Result = emptyResult, out_Err = cw_Update cw overcommitClass,
                            out_Calls = calls\<rparr>)
                 else reconcileClassManaged cw calls)))"

section \<open>Notions used to state the properties\<close>

text \<open>
  What \<open>createTolerationKey\<close> reads of a toleration: key, operator, value, effect and
  whether \<open>tolerationSeconds\<close> is nil.
\<close>

definition tolerationIdentity :: "toleration \<Rightarrow> string \<times> string \<times> string \<times> string \<times> bool" where
  "tolerationIdentity tol =
     (tol_Key tol, tol_Operator tol, tol_Value tol, tol_Effect tol, tol_TolerationSeconds tol = None)"



text \<open>
  \<open>retried env k\<close>: each of the attempts \<open>0, \<dots>, k - 1\<close> fetched the object and failed
  with a conflict, so that the status writer reaches attempt \<open>k\<close>; \<open>retryPrefix k\<close> is
  what it has done until then.
\<close>

definition retried :: "statusEnv \<Rightarrow> nat \<Rightarrow> bool" where
  "retried env k =
     list_all (\<lambda>j. se_Get env j = None \<and>
                 (case se_StatusUpdate env j of None \<Rightarrow> False | Some e \<Rightarrow> IsConflict e))
       [0..<k]"

definition retryPrefix :: "nat \<Rightarrow> statusEvent list" where
  "retryPrefix k =
     concat (map (\<lambda>j. [Fetch j, StatusWrite j, Sleep (2 ^ j * 50 * Millisecond)]) [0..<k])"

fun isFetch :: "statusEvent \<Rightarrow> bool" where
  "isFetch (Fetch _) = True"
| "isFetch _ = False"

text \<open>
  Properties of an outcome of the singleton reconciler, read off the calls it records:
  a \<open>CreateOrUpdate\<close> that failed, other than with a conflict on the pod webhook
  configuration, is the last call and its error is returned with the empty result; a
  conflict on the pod webhook configuration is followed at once by the \<open>CreateOrUpdate\<close>
  of the controller deployment, whose error is the one returned; and a run that reaches the status writer returns no error.
\<close>

definition tenSeconds :: ctrlResult where
  "tenSeconds = \<lparr>Requeue = False, RequeueAfter = 10 * Second\<rparr>"

definition abortsAtFailure :: "call outcome \<Rightarrow> bool" where
  "abortsAtFailure out =
     list_all (\<lambda>c. case c of
                  CallCreateOrUpdate m op (Some e) \<Rightarrow>
                    (m = PodWebhook \<and> IsConflict e) \<or>
                    (out_Err out = Some e \<and> out_Result out = emptyResult \<and> last (out_Calls out) = c)
                | _ \<Rightarrow> True)
       (out_Calls out)"

fun nextCall :: "'a \<Rightarrow> 'a list \<Rightarrow> 'a option" where
  "nextCall c [] = None"
| "nextCall c [x] = None"
| "nextCall c (x # y # ys) = (if x = c then Some y else nextCall c (y # ys))"

definition carriesOn :: "call outcome \<Rightarrow> bool" where
  "carriesOn out =
     list_all (\<lambda>c. case c of
                  CallCreateOrUpdate PodWebhook op (Some e) \<Rightarrow>
                    IsConflict e \<longrightarrow>
                    (case nextCall c (out_Calls out) of
                       Some (CallCreateOrUpdate OcController op' err') \<Rightarrow>
                         out_Err out = err' \<and> (err' = None \<longrightarrow> out_Result out = tenSeconds)
                     | _ \<Rightarrow> False)
                | _ \<Rightarrow> True)
       (out_Calls out)"

definition statusNeverFails :: "call outcome \<Rightarrow> bool" where
  "statusNeverFails out =
     list_all (\<lambda>c. case c of
                  CallUpdateOvercommitStatusSafely r \<Rightarrow>
                    out_Err out = None \<and> out_Result out = tenSeconds
                | _ \<Rightarrow> True)
       (out_Calls out)"

definition noUpdate :: "call outcome \<Rightarrow> bool" where
  "noUpdate out =
     list_all (\<lambda>c. case c of CallUpdate _ \<Rightarrow> False | _ \<Rightarrow> True) (out_Calls out)"

text \<open>The Overcommit object without the two legacy finalizers.\<close>

definition withoutLegacyFinalizers :: "overcommit \<Rightarrow> overcommit" where
  "withoutLegacyFinalizers overcommit =
     overcommit\<lparr>oc_Meta := (oc_Meta overcommit)\<lparr>meta_Finalizers :=
       filter (\<lambda>f. f \<noteq> ''overcommit.finalizer'' \<and> f \<noteq> ''webhook.finalizer'')
         (meta_Finalizers (oc_Meta overcommit))\<rparr>\<rparr>"

definition hasLegacyFinalizer :: "overcommit \<Rightarrow> bool" where
  "hasLegacyFinalizer overcommit =
     (''overcommit.finalizer'' \<in> set (meta_Finalizers (oc_Meta overcommit)) \<or>
      ''webhook.finalizer'' \<in> set (meta_Finalizers (oc_Meta overcommit)))"

text \<open>
  The deployment the mutate function of a deployment aims at: the generated one with
  the image of the environment. \<open>uncontrolled\<close>: no owner reference of the object is a
  controller reference yet, as for an object fresh from its generator.
\<close>

definition desiredDeployment :: "string \<Rightarrow> deployment \<Rightarrow> deployment" where
  "desiredDeployment img generated = updContainer0 (\<lambda>c. c\<lparr>ctr_Image := img\<rparr>) generated"

definition uncontrolled :: "objectMeta \<Rightarrow> bool" where
  "uncontrolled m = (find ref_Controller (meta_OwnerReferences m) = None)"

definition ownedBy :: "overcommit \<Rightarrow> objectMeta \<Rightarrow> bool" where
  "ownedBy overcommit m =
     (controllerRef ''Overcommit'' (oc_Meta overcommit) \<in> set (meta_OwnerReferences m))"

fun isCreateOrUpdate :: "call \<Rightarrow> bool" where
  "isCreateOrUpdate (CallCreateOrUpdate _ _ _) = True"
| "isCreateOrUpdate _ = False"

section \<open>Example inputs\<close>

definition tolA :: toleration where
  "tolA = \<lparr>tol_Key = ''node.kubernetes.io/not-ready'', tol_Operator = ''Exists'', tol_Value = [],
           tol_Effect = ''NoExecute'', tol_TolerationSeconds = None\<rparr>"

definition tolB :: toleration where
  "tolB = \<lparr>tol_Key = ''node.kubernetes.io/unreachable'', tol_Operator = ''Exists'', tol_Value = [],
           tol_Effect = ''NoExecute'', tol_TolerationSeconds = None\<rparr>"

definition tol30 :: toleration where
  "tol30 = tolA\<lparr>tol_TolerationSeconds := Some 30\<rparr>"

definition tol60 :: toleration where
  "tol60 = tolA\<lparr>tol_TolerationSeconds := Some 60\<rparr>"



definition envX :: envVar where
  "envX = \<lparr>env_Name = ''X'', env_Value = ''1'', env_ValueFrom = None\<rparr>"

definition envY :: envVar where
  "envY = \<lparr>env_Name = ''Y'', env_Value = ''2'', env_ValueFrom = None\<rparr>"

definition portP :: servicePort where
  "portP = \<lparr>port_Name = ''https'', port_Protocol = ''TCP'', port_AppProtocol = None,
            port_Port = 443, port_TargetPort = \<lparr>ios_Type = 0, ios_IntVal = 9443, ios_StrVal = []\<rparr>,
            port_NodePort = 0\<rparr>"

definition portQ :: servicePort where
  "portQ = portP\<lparr>port_Name := ''metrics''\<rparr>"

definition mapOne :: "(string, string) fmap" where
  "mapOne = fmupd ''app'' ''one'' fmempty"

definition mapTwo :: "(string, string) fmap" where
  "mapTwo = fmupd ''app'' ''two'' fmempty"

text \<open>Status writer: conflicts in attempts 0 and 1, then what the name says in attempt 2.\<close>

definition conflictsThen :: "error option \<Rightarrow> error option \<Rightarrow> statusEnv" where
  "conflictsThen getErr updateErr =
     \<lparr>se_Get = (\<lambda>k. if k < 2 then None else getErr),
      se_StatusUpdate = (\<lambda>k. if k < 2 then Some (Conflict ''modified'') else updateErr)\<rparr>"

definition alwaysConflict :: statusEnv where
  "alwaysConflict = \<lparr>se_Get = (\<lambda>k. None), se_StatusUpdate = (\<lambda>k. Some (Conflict ''modified''))\<rparr>"

definition exampleMeta :: "string \<Rightarrow> objectMeta" where
  "exampleMeta n =
     \<lparr>meta_Name = n, meta_Namespace = ''k8s-overcommit'', meta_UID = n,
      meta_CreationTimestamp = 1, meta_DeletionTimestamp = None, meta_Labels = None,
      meta_Annotations = None, meta_OwnerReferences = [], meta_Finalizers = []\<rparr>"

definition exampleOvercommit :: overcommit where
  "exampleOvercommit =
     \<lparr>oc_Meta = exampleMeta ''cluster'', oc_Label = ''overcommit.inditex.dev/class''\<rparr>"

definition exampleDeployment :: deployment where
  "exampleDeployment =
     \<lparr>dep_Meta = exampleMeta ''webhook'',
      dep_Spec = \<lparr>dspec_Replicas = Some 1,
        dspec_Template = \<lparr>tpl_Labels = None, tpl_Annotations = None, tpl_NodeSelector = None,
          tpl_Tolerations = None,
          tpl_Containers = [\<lparr>ctr_Name = ''webhook'', ctr_Image = ''/:'', ctr_Env = None\<rparr>]\<rparr>\<rparr>\<rparr>"

definition exampleService :: service where
  "exampleService =
     \<lparr>svc_Meta = exampleMeta ''webhook-service'',
      svc_Spec = \<lparr>sspec_Selector = Some mapOne, sspec_Ports = Some [portP],
                  sspec_Type = ''ClusterIP''\<rparr>\<rparr>"

definition driftedService :: service where
  "driftedService =
     exampleService\<lparr>svc_Spec := (svc_Spec exampleService)\<lparr>sspec_Selector := Some mapTwo\<rparr>\<rparr>"

definition exampleCertificate :: certificate where
  "exampleCertificate =
     \<lparr>cert_Meta = exampleMeta ''webhook-certificate'',
      cert_Spec = \<lparr>cspec_DNSNames = Some [''webhook-service.k8s-overcommit.svc''],
                   cspec_IssuerRef = \<lparr>iref_Name = ''issuer'', iref_Kind = ''Issuer''\<rparr>,
                   cspec_SecretName = ''webhook-tls''\<rparr>\<rparr>"

definition exampleWebhook :: webhookConfiguration where
  "exampleWebhook =
     \<lparr>whc_Meta = exampleMeta ''webhook-configuration'',
      whc_Webhooks = [\<lparr>wh_Name = ''webhook.overcommit.inditex.dev'', wh_Rules = [''pods''],
                       wh_ClientConfigService = Some \<lparr>sref_Name = ''webhook-service'',
                                                     sref_Namespace = ''k8s-overcommit''\<rparr>,
                       wh_AdmissionReviewVersions = [''v1''], wh_MatchConditions = []\<rparr>]\<rparr>"

definition exampleIssuer :: issuer where
  "exampleIssuer = \<lparr>iss_Meta = exampleMeta ''issuer'', iss_SelfSigned = True\<rparr>"

definition exampleResources :: resources where
  "exampleResources =
     \<lparr>GenerateIssuer = Some exampleIssuer,
      GenerateOvercommitClassValidatingDeployment = (\<lambda>_. exampleDeployment),
      GenerateOvercommitClassValidatingService = (\<lambda>_. exampleService),
      GenerateCertificateValidatingOvercommitClass = (\<lambda>_ _. exampleCertificate),
      GenerateOvercommitClassValidatingWebhookConfiguration = (\<lambda>_ _ _. exampleWebhook),
      GeneratePodValidatingDeployment = (\<lambda>_. exampleDeployment),
      GeneratePodValidatingService = (\<lambda>_. exampleService),
      GenerateCertificateValidatingPods = (\<lambda>_ _. exampleCertificate),
      GeneratePodValidatingWebhookConfiguration = (\<lambda>_ _ _ _. exampleWebhook),
      GenerateOvercommitClassControllerDeployment = (\<lambda>_. exampleDeployment)\<rparr>"

definition existing :: "'o \<Rightarrow> 'o slot" where
  "existing obj = \<lparr>slot_Get = Inr obj, slot_Write = (\<lambda>written. Inr written)\<rparr>"

definition failing :: "error \<Rightarrow> 'o slot" where
  "failing e = \<lparr>slot_Get = Inl e, slot_Write = (\<lambda>written. Inr written)\<rparr>"

text \<open>
  A cluster in which every managed object exists as generated, and the status write
  succeeds at once.
\<close>

definition exampleWorld :: world where
  "exampleWorld =
     \<lparr>w_resources = exampleResources,
      w_Getenv = (\<lambda>_. []),
      w_GetOvercommitLabel = Inr ''overcommit.inditex.dev/class'',
      w_Get = Inr exampleOvercommit,
      w_Update = (\<lambda>_. None),
      w_issuer = existing exampleIssuer,
      w_overcommitClassCertificate = existing exampleCertificate,
      w_overcommitClassDeployment = existing exampleDeployment,
      w_overcommitClassService = existing exampleService,
      w_overcommitClassWebhook = existing exampleWebhook,
      w_podCertificate = existing exampleCertificate,
      w_podDeployment = existing exampleDeployment,
      w_podService = existing exampleService,
      w_podWebhook = existing exampleWebhook,
      w_occontroller = existing exampleDeployment,
      w_status = \<lparr>se_Get = (\<lambda>k. None), se_StatusUpdate = (\<lambda>k. None)\<rparr>\<rparr>"

definition legacyOvercommit :: overcommit where
  "legacyOvercommit =
     exampleOvercommit\<lparr>oc_Meta := (exampleMeta ''cluster'')
       \<lparr>meta_Finalizers := [''overcommit.finalizer'', ''keep.me'', ''webhook.finalizer'']\<rparr>\<rparr>"

definition exampleClass :: overcommitClass where
  "exampleClass =
     \<lparr>occ_Meta = (exampleMeta ''gold'')
        \<lparr>meta_Finalizers := [''overcommitclass.finalizer''],
         meta_OwnerReferences := [controllerRef ''Overcommit'' (exampleMeta ''cluster'')]\<rparr>\<rparr>"

definition exampleClassWorld :: classWorld where
  "exampleClassWorld =
     \<lparr>cw_GetOvercommitLabel = Inr ''overcommit.inditex.dev/class'',
      cw_Get = Inr exampleClass,
      cw_generatedNil = (\<lambda>_. False),
      cw_Delete = (\<lambda>_. None),
      cw_cleanupGetOvercommitLabel = Inr ''overcommit.inditex.dev/class'',
      cw_Update = (\<lambda>_. None),
      cw_GetOvercommit = Inr exampleOvercommit,
      cw_CreateOrUpdate = (\<lambda>_. None),
      cw_getTotalClasses = None,
      cw_updateResourcesStatus = None\<rparr>"

definition podWebhookConflictWorld :: world where
  "podWebhookConflictWorld = exampleWorld\<lparr>w_podWebhook := failing (Conflict ''pod webhook'')\<rparr>"

definition classWebhookConflictWorld :: world where
  "classWebhookConflictWorld =
     exampleWorld\<lparr>w_overcommitClassWebhook := failing (Conflict ''class webhook'')\<rparr>"

definition statusFailsWorld :: world where
  "statusFailsWorld = exampleWorld\<lparr>w_status := alwaysConflict\<rparr>"

definition legacyWorld :: world where
  "legacyWorld = exampleWorld\<lparr>w_Get := Inr legacyOvercommit\<rparr>"

definition statusFailsClassWorld :: classWorld where
  "statusFailsClassWorld =
     exampleClassWorld\<lparr>cw_updateResourcesStatus := Some (Failure ''status update'')\<rparr>"

definition metricsFailClassWorld :: classWorld where
  "metricsFailClassWorld =
     exampleClassWorld\<lparr>cw_getTotalClasses := Some (Failure ''list classes'')\<rparr>"

definition freshMeta :: "string \<Rightarrow> objectMeta" where
  "freshMeta n = (exampleMeta n)\<lparr>meta_CreationTimestamp := 0\<rparr>"

definition freshDeployment :: deployment where
  "freshDeployment = exampleDeployment\<lparr>dep_Meta := freshMeta ''webhook''\<rparr>"

definition driftedDeployment :: deployment where
  "driftedDeployment =
     exampleDeployment\<lparr>dep_Spec := \<lparr>dspec_Replicas = Some 3,
        dspec_Template = \<lparr>tpl_Labels = None, tpl_Annotations = Some mapOne,
          tpl_NodeSelector = None, tpl_Tolerations = Some [tolA],
          tpl_Containers = [\<lparr>ctr_Name = ''webhook'', ctr_Image = ''old/image:1'',
                             ctr_Env = Some [envX]\<rparr>]\<rparr>\<rparr>\<rparr>"

section \<open>Properties\<close>

declare statusLoop.simps [simp del]

subsection \<open>The comparison helpers\<close>

lemma fold_fmupd_dom:
  "fmdom (fold (\<lambda>x m. fmupd (k x) (v x) m) xs m0) = fmdom m0 |\<union>| fset_of_list (map k xs)"
  by (induction xs arbitrary: m0) auto

lemma fold_fmupd_lookup_iff:
  "(\<exists>y. fmlookup (fold (\<lambda>x m. fmupd (k x) (v x) m) xs m0) key = Some y)
     \<longleftrightarrow> key \<in> k ` set xs \<or> (\<exists>y. fmlookup m0 key = Some y)"
  using fold_fmupd_dom [of k v xs m0]
  by (metis (no_types, lifting) fmlookup_dom_iff fset_of_list.rep_eq funion_iff list.set_map)

lemma TolerationsEqual_Some_iff:
  "TolerationsEqual (Some a) (Some b) \<longleftrightarrow>
     length a = length b \<and> createTolerationKey ` set b \<subseteq> createTolerationKey ` set a"
  by (auto simp: TolerationsEqual_def len_def elems_def fold_fmupd_lookup_iff list_all_iff)

lemma TolerationsEqual_refl: "TolerationsEqual a a"
proof (cases a)
  case None
  then show ?thesis by (simp add: TolerationsEqual_def)
next
  case (Some xs)
  then show ?thesis by (simp add: TolerationsEqual_Some_iff)
qed

lemma envVarsEqual_refl: "envVarsEqual a a"
  by (auto simp: envVarsEqual_def Let_def split: option.splits)

lemma portsEqual_refl: "portsEqual a a"
  by (auto simp: portsEqual_def Let_def split: option.splits)

lemma fold_true_lookup:
  "fmlookup (fold (\<lambda>item m. fmupd item True m) xs m0) key = Some v \<Longrightarrow>
     v = True \<or> fmlookup m0 key = Some v"
proof (induction xs arbitrary: m0)
  case Nil
  then show ?case by simp
next
  case (Cons x xs)
  from Cons.IH [of "fmupd x True m0"] Cons.prems show ?case
    by (auto split: if_splits)
qed

lemma slicesEqual_refl: "slicesEqual a a"
proof -
  have "\<And>item y. fmlookup (fold (\<lambda>item m. fmupd item True m) (elems a) fmempty) item = Some y \<Longrightarrow> y"
    using fold_true_lookup by fastforce
  then show ?thesis
    by (auto simp: slicesEqual_def Let_def fBall_alt_def fmlookup_dom_iff split: option.splits)
qed

lemma mapsEqual_Some_iff: "mapsEqual (Some a) (Some b) \<longleftrightarrow> a = b"
proof
  assume h: "mapsEqual (Some a) (Some b)"
  then have c: "fcard (fmdom a) = fcard (fmdom b)"
    by (simp add: mapsEqual_def maplen_def split: if_splits)
  from h have l: "\<And>k. k |\<in>| fmdom a \<Longrightarrow> fmlookup b k = fmlookup a k"
    by (auto simp: mapsEqual_def maplen_def fBall_alt_def split: if_splits option.splits)
  then have "fmdom a |\<subseteq>| fmdom b"
    by (metis fmdom_notD fmdom_notI fsubsetI)
  with c have d: "fmdom a = fmdom b"
    by (metis fcard_seteq order_refl)
  show "a = b"
  proof (rule fmap_ext)
    fix x show "fmlookup a x = fmlookup b x"
    proof (cases "x |\<in>| fmdom a")
      case True then show ?thesis using l by simp
    next
      case False then show ?thesis using d by (metis fmdom_notD)
    qed
  qed
next
  assume "a = b"
  then show "mapsEqual (Some a) (Some b)"
    by (auto simp: mapsEqual_def split: option.splits)
qed

lemma mapsEqual_iff: "mapsEqual a b \<longleftrightarrow> a = b"
  by (cases a; cases b) (simp_all add: mapsEqual_Some_iff, simp_all add: mapsEqual_def)

lemma mapsEqual_sym: "mapsEqual a b = mapsEqual b a"
  by (auto simp: mapsEqual_iff)

lemma createTolerationKey_eq:
  "createTolerationKey tol =
     tol_Key tol @ ''-'' @ tol_Operator tol @ ''-'' @ tol_Value tol @ ''-'' @ tol_Effect tol @ ''-'' @
       (if tol_TolerationSeconds tol \<noteq> None then ''seconds-not-nil'' else ''seconds-nil'')"
  by (simp add: createTolerationKey_def)

lemma tolerationIdentity_key:
  "tolerationIdentity x = tolerationIdentity y \<Longrightarrow> createTolerationKey x = createTolerationKey y"
  by (auto simp add: tolerationIdentity_def createTolerationKey_eq)


lemma TolerationsEqual_covered:
  assumes "length a = length b"
    and "\<forall>y \<in> set b. \<exists>x \<in> set a. createTolerationKey x = createTolerationKey y"
  shows "TolerationsEqual (Some a) (Some b)"
proof -
  have "createTolerationKey ` set b \<subseteq> createTolerationKey ` set a"
  proof
    fix k assume "k \<in> createTolerationKey ` set b"
    then obtain y where y: "y \<in> set b" and k: "k = createTolerationKey y" by blast
    with assms(2) obtain x where "x \<in> set a" and "createTolerationKey x = createTolerationKey y"
      by blast
    with k show "k \<in> createTolerationKey ` set a" by (metis imageI)
  qed
  with assms(1) show ?thesis by (simp add: TolerationsEqual_Some_iff)
qed


text \<open>
  On lists without duplicate keys the list comparisons are what their names say: the two lists
  have the same length and every entry of the first has its equal in the second, and then the
  answer does not depend on the order of the arguments.
\<close>

lemma fold_fmupd_other:
  "key \<notin> k ` set xs \<Longrightarrow>
     fmlookup (fold (\<lambda>x m. fmupd (k x) (v x) m) xs m0) key = fmlookup m0 key"
  by (induction xs arbitrary: m0) auto

lemma fold_fmupd_distinct:
  "distinct (map k xs) \<Longrightarrow> x \<in> set xs \<Longrightarrow>
     fmlookup (fold (\<lambda>x m. fmupd (k x) (v x) m) xs m0) (k x) = Some (v x)"
proof (induction xs arbitrary: m0)
  case Nil
  then show ?case by simp
next
  case (Cons y ys)
  show ?case
  proof (cases "x = y")
    case True
    with Cons.prems have "k x \<notin> k ` set ys" by auto
    then show ?thesis using True by (simp add: fold_fmupd_other)
  next
    case False
    with Cons show ?thesis by simp
  qed
qed

lemma fold_fmupd_from:
  "fmlookup (fold (\<lambda>x m. fmupd (k x) (v x) m) xs fmempty) key = Some val \<Longrightarrow>
     \<exists>x \<in> set xs. k x = key \<and> v x = val"
proof -
  have "\<And>m0. fmlookup (fold (\<lambda>x m. fmupd (k x) (v x) m) xs m0) key = Some val \<Longrightarrow>
           (\<exists>x \<in> set xs. k x = key \<and> v x = val) \<or> fmlookup m0 key = Some val"
  proof (induction xs)
    case Nil
    then show ?case by simp
  next
    case (Cons y ys)
    from Cons.IH [of "fmupd (k y) (v y) m0"] Cons.prems show ?case
      by (auto split: if_splits)
  qed
  then show "fmlookup (fold (\<lambda>x m. fmupd (k x) (v x) m) xs fmempty) key = Some val \<Longrightarrow>
     \<exists>x \<in> set xs. k x = key \<and> v x = val"
    by fastforce
qed

lemma fold_fmupd_keys:
  "key |\<in>| fmdom (fold (\<lambda>x m. fmupd (k x) (v x) m) xs fmempty) \<longleftrightarrow> key \<in> k ` set xs"
  by (simp add: fold_fmupd_dom fset_of_list.rep_eq)

lemma envVarsEqual_distinct_iff:
  assumes "distinct (map env_Name a)" "distinct (map env_Name b)"
  shows "envVarsEqual (Some a) (Some b) \<longleftrightarrow>
           length a = length b \<and>
           (\<forall>x \<in> set a. \<exists>y \<in> set b. env_Name y = env_Name x \<and> env_Value y = env_Value x)"
proof -
  let ?A = "fold (\<lambda>env m. fmupd (env_Name env) (env_Value env) m) a fmempty"
  let ?B = "fold (\<lambda>env m. fmupd (env_Name env) (env_Value env) m) b fmempty"
  have A: "\<And>x. x \<in> set a \<Longrightarrow> fmlookup ?A (env_Name x) = Some (env_Value x)"
    using assms(1) by (rule fold_fmupd_distinct)
  have B: "\<And>y. y \<in> set b \<Longrightarrow> fmlookup ?B (env_Name y) = Some (env_Value y)"
    using assms(2) by (rule fold_fmupd_distinct)
  have "fBall (fmdom ?A) (\<lambda>key. case fmlookup ?B key of None \<Rightarrow> False
                                | Some valueB \<Rightarrow> fmlookup ?A key = Some valueB)
        \<longleftrightarrow> (\<forall>x \<in> set a. \<exists>y \<in> set b. env_Name y = env_Name x \<and> env_Value y = env_Value x)"
    (is "?L \<longleftrightarrow> ?R")
  proof
    assume l: ?L
    show ?R
    proof
      fix x assume x: "x \<in> set a"
      then have "env_Name x |\<in>| fmdom ?A" by (simp add: fold_fmupd_keys)
      with l have "case fmlookup ?B (env_Name x) of None \<Rightarrow> False
                   | Some valueB \<Rightarrow> fmlookup ?A (env_Name x) = Some valueB"
        by (simp add: fBall_alt_def)
      with A [OF x] have "fmlookup ?B (env_Name x) = Some (env_Value x)"
        by (auto split: option.splits)
      then show "\<exists>y \<in> set b. env_Name y = env_Name x \<and> env_Value y = env_Value x"
        by (rule fold_fmupd_from)
    qed
  next
    assume r: ?R
    show ?L
      unfolding fBall_alt_def
    proof (intro allI impI)
      fix key assume "key |\<in>| fmdom ?A"
      then obtain x where x: "x \<in> set a" and key: "key = env_Name x"
        by (auto simp add: fold_fmupd_keys)
      with r obtain y where y: "y \<in> set b" and "env_Name y = env_Name x" "env_Value y = env_Value x"
        by blast
      with B [OF y] A [OF x] key
      show "case fmlookup ?B key of None \<Rightarrow> False | Some valueB \<Rightarrow> fmlookup ?A key = Some valueB"
        by simp
    qed
  qed
  then show ?thesis by (simp add: envVarsEqual_def len_def elems_def)
qed

lemma slicesEqual_iff:
  "slicesEqual (Some a) (Some b) \<longleftrightarrow> length a = length b \<and> set a \<subseteq> set b"
proof -
  let ?B = "fold (\<lambda>item m. fmupd item True m) b fmempty"
  have t: "\<And>item. (case fmlookup ?B item of None \<Rightarrow> False | Some v \<Rightarrow> v) \<longleftrightarrow> item \<in> set b"
  proof -
    fix item
    show "(case fmlookup ?B item of None \<Rightarrow> False | Some v \<Rightarrow> v) \<longleftrightarrow> item \<in> set b"
    proof (cases "fmlookup ?B item")
      case None
      then have "item |\<notin>| fmdom ?B" by (simp add: fmdom_notI)
      then show ?thesis using None by (simp add: fold_fmupd_keys)
    next
      case (Some v)
      then have "item |\<in>| fmdom ?B" by (simp add: fmdomI)
      moreover from Some have "v" using fold_true_lookup by fastforce
      ultimately show ?thesis using Some by (simp add: fold_fmupd_keys)
    qed
  qed
  show ?thesis
    by (auto simp add: slicesEqual_def len_def elems_def fBall_alt_def fold_fmupd_keys t)
qed

lemma portsEqual_distinct_iff:
  assumes "distinct (map port_Name a)" "distinct (map port_Name b)"
  shows "portsEqual (Some a) (Some b) \<longleftrightarrow>
           length a = length b \<and>
           (\<forall>x \<in> set a. \<exists>y \<in> set b. port_Name y = port_Name x \<and> port_Port y = port_Port x \<and>
              port_TargetPort y = port_TargetPort x \<and> port_Protocol y = port_Protocol x)"
proof -
  let ?A = "fold (\<lambda>port m. fmupd (port_Name port) port m) a fmempty"
  let ?B = "fold (\<lambda>port m. fmupd (port_Name port) port m) b fmempty"
  let ?ok = "\<lambda>name. case (fmlookup ?A name, fmlookup ?B name) of
               (Some portA, Some portB) \<Rightarrow>
                 \<not> (port_Port portA \<noteq> port_Port portB \<or>
                    port_TargetPort portA \<noteq> port_TargetPort portB \<or>
                    port_Protocol portA \<noteq> port_Protocol portB)
             | _ \<Rightarrow> False"
  have A: "\<And>x. x \<in> set a \<Longrightarrow> fmlookup ?A (port_Name x) = Some x"
    using assms(1) fold_fmupd_distinct [of port_Name a _ "\<lambda>p. p"] by simp
  have B: "\<And>y. y \<in> set b \<Longrightarrow> fmlookup ?B (port_Name y) = Some y"
    using assms(2) fold_fmupd_distinct [of port_Name b _ "\<lambda>p. p"] by simp
  have "fBall (fmdom ?A) ?ok \<longleftrightarrow>
        (\<forall>x \<in> set a. \<exists>y \<in> set b. port_Name y = port_Name x \<and> port_Port y = port_Port x \<and>
              port_TargetPort y = port_TargetPort x \<and> port_Protocol y = port_Protocol x)"
    (is "?L \<longleftrightarrow> ?R")
  proof
    assume l: ?L
    show ?R
    proof
      fix x assume x: "x \<in> set a"
      then have "port_Name x |\<in>| fmdom ?A" by (simp add: fold_fmupd_keys)
      with l have ok: "?ok (port_Name x)" by (simp add: fBall_alt_def)
      then obtain y where yl: "fmlookup ?B (port_Name x) = Some y"
        using A [OF x] by (auto split: option.splits)
      from fold_fmupd_from [of port_Name "\<lambda>p. p" b, OF yl]
      have y: "y \<in> set b" "port_Name y = port_Name x" by auto
      from ok yl A [OF x] have "port_Port y = port_Port x \<and>
              port_TargetPort y = port_TargetPort x \<and> port_Protocol y = port_Protocol x"
        by simp
      with y show "\<exists>y \<in> set b. port_Name y = port_Name x \<and> port_Port y = port_Port x \<and>
              port_TargetPort y = port_TargetPort x \<and> port_Protocol y = port_Protocol x"
        by blast
    qed
  next
    assume r: ?R
    show ?L
      unfolding fBall_alt_def
    proof (intro allI impI)
      fix name assume "name |\<in>| fmdom ?A"
      then obtain x where x: "x \<in> set a" and n: "name = port_Name x"
        by (auto simp add: fold_fmupd_keys)
      with r obtain y where y: "y \<in> set b" and e: "port_Name y = port_Name x"
        "port_Port y = port_Port x" "port_TargetPort y = port_TargetPort x"
        "port_Protocol y = port_Protocol x"
        by blast
      from B [OF y] e(1) have "fmlookup ?B (port_Name x) = Some y" by simp
      with A [OF x] n e show "?ok name" by simp
    qed
  qed
  then show ?thesis by (simp add: portsEqual_def len_def elems_def)
qed

text \<open>
  On lists without duplicate keys, a comparison that holds in one direction holds in
  the other: the compared content of the two lists is then the same set.
\<close>

lemma same_content:
  assumes "distinct (map k a)" "distinct (map k b)" "length a = length b"
    and "\<And>x. k x = fst (f x)" and "f ` set a \<subseteq> f ` set b"
  shows "f ` set a = f ` set b"
proof -
  have inj: "\<And>xs. distinct (map k xs) \<Longrightarrow> inj_on f (set xs)"
  proof (rule inj_onI)
    fix xs x y assume d: "distinct (map k xs)" and "x \<in> set xs" "y \<in> set xs" "f x = f y"
    then have "k x = k y" using assms(4) by simp
    with d \<open>x \<in> set xs\<close> \<open>y \<in> set xs\<close> show "x = y"
      by (meson distinct_map inj_onD)
  qed
  have "card (f ` set a) = length a"
    using inj [OF assms(1)] assms(1) by (simp add: card_image distinct_card distinct_map)
  moreover have "card (f ` set b) = length b"
    using inj [OF assms(2)] assms(2) by (simp add: card_image distinct_card distinct_map)
  ultimately show ?thesis
    using assms(3,5) by (simp add: card_subset_eq)
qed

lemma envVarsEqual_distinct_sym:
  assumes "distinct (map env_Name a)" "distinct (map env_Name b)"
  shows "envVarsEqual (Some a) (Some b) = envVarsEqual (Some b) (Some a)"
proof -
  let ?f = "\<lambda>e. (env_Name e, env_Value e)"
  have c: "(\<forall>x \<in> set a. \<exists>y \<in> set b. env_Name y = env_Name x \<and> env_Value y = env_Value x)
             \<longleftrightarrow> ?f ` set a \<subseteq> ?f ` set b"
    for a b :: "envVar list"
    proof
      assume h: "\<forall>x \<in> set a. \<exists>y \<in> set b. env_Name y = env_Name x \<and> env_Value y = env_Value x"
      show "?f ` set a \<subseteq> ?f ` set b"
      proof
        fix p assume "p \<in> ?f ` set a"
        then obtain x where x: "x \<in> set a" "p = ?f x" by blast
        with h obtain y where y: "y \<in> set b" "env_Name y = env_Name x" "env_Value y = env_Value x"
          by blast
        from x(2) y(2,3) have "p = ?f y" by simp
        with y(1) show "p \<in> ?f ` set b" by (rule image_eqI [rotated])
      qed
    next
      assume h: "?f ` set a \<subseteq> ?f ` set b"
      show "\<forall>x \<in> set a. \<exists>y \<in> set b. env_Name y = env_Name x \<and> env_Value y = env_Value x"
      proof
        fix x assume "x \<in> set a"
        with h have "?f x \<in> ?f ` set b" by blast
        then obtain y where "y \<in> set b" "?f x = ?f y" by blast
        then show "\<exists>y \<in> set b. env_Name y = env_Name x \<and> env_Value y = env_Value x"
          by (intro bexI [of _ y]) simp_all
      qed
    qed
  have "\<And>a b. distinct (map env_Name a) \<Longrightarrow> distinct (map env_Name b) \<Longrightarrow>
          envVarsEqual (Some a) (Some b) \<Longrightarrow> envVarsEqual (Some b) (Some a)"
  proof -
    fix a b assume d: "distinct (map env_Name a)" "distinct (map env_Name b)"
      and e: "envVarsEqual (Some a) (Some b)"
    from e have l: "length a = length b" and s: "?f ` set a \<subseteq> ?f ` set b"
      by (simp_all add: envVarsEqual_distinct_iff [OF d] c)
    from same_content [OF d l _ s] have "?f ` set b \<subseteq> ?f ` set a" by simp
    with l show "envVarsEqual (Some b) (Some a)"
      by (simp add: envVarsEqual_distinct_iff [OF d(2,1)] c)
  qed
  with assms show ?thesis by blast
qed

lemma slicesEqual_distinct_sym:
  assumes "distinct a" "distinct b"
  shows "slicesEqual (Some a) (Some b) = slicesEqual (Some b) (Some a)"
proof -
  have "\<And>a b :: string list. distinct a \<Longrightarrow> distinct b \<Longrightarrow> length a = length b \<Longrightarrow>
          set a \<subseteq> set b \<Longrightarrow> set b \<subseteq> set a"
    by (metis card_subset_eq distinct_card List.finite_set order_refl)
  with assms show ?thesis
    by (auto simp add: slicesEqual_iff)
qed

lemma TolerationsEqual_distinct_sym:
  assumes "distinct (map createTolerationKey a)" "distinct (map createTolerationKey b)"
  shows "TolerationsEqual (Some a) (Some b) = TolerationsEqual (Some b) (Some a)"
proof -
  have "\<And>a b. distinct (map createTolerationKey a) \<Longrightarrow> distinct (map createTolerationKey b) \<Longrightarrow>
          length a = length b \<Longrightarrow> createTolerationKey ` set b \<subseteq> createTolerationKey ` set a \<Longrightarrow>
          createTolerationKey ` set a \<subseteq> createTolerationKey ` set b"
  proof -
    fix a b assume d: "distinct (map createTolerationKey a)" "distinct (map createTolerationKey b)"
      and l: "length a = length b"
      and s: "createTolerationKey ` set b \<subseteq> createTolerationKey ` set a"
    have "card (createTolerationKey ` set a) = length a" "card (createTolerationKey ` set b) = length b"
      using d by (metis distinct_card length_map set_map)+
    with l s show "createTolerationKey ` set a \<subseteq> createTolerationKey ` set b"
      by (metis List.finite_set card_subset_eq finite_imageI order_refl)
  qed
  from this [OF assms] this [OF assms(2,1)] show ?thesis
    unfolding TolerationsEqual_Some_iff by (cases "length a = length b") auto
qed

lemma portsEqual_distinct_sym:
  assumes "distinct (map port_Name a)" "distinct (map port_Name b)"
  shows "portsEqual (Some a) (Some b) = portsEqual (Some b) (Some a)"
proof -
  let ?f = "\<lambda>p. (port_Name p, port_Port p, port_TargetPort p, port_Protocol p)"
  have c: "(\<forall>x \<in> set a. \<exists>y \<in> set b. port_Name y = port_Name x \<and> port_Port y = port_Port x \<and>
              port_TargetPort y = port_TargetPort x \<and> port_Protocol y = port_Protocol x)
             \<longleftrightarrow> ?f ` set a \<subseteq> ?f ` set b"
    for a b :: "servicePort list"
    proof
      assume h: "\<forall>x \<in> set a. \<exists>y \<in> set b. port_Name y = port_Name x \<and> port_Port y = port_Port x \<and>
              port_TargetPort y = port_TargetPort x \<and> port_Protocol y = port_Protocol x"
      show "?f ` set a \<subseteq> ?f ` set b"
      proof
        fix p assume "p \<in> ?f ` set a"
        then obtain x where x: "x \<in> set a" "p = ?f x" by blast
        with h obtain y where y: "y \<in> set b" "port_Name y = port_Name x" "port_Port y = port_Port x"
          "port_TargetPort y = port_TargetPort x" "port_Protocol y = port_Protocol x"
          by blast
        from x(2) y(2-) have "p = ?f y" by simp
        with y(1) show "p \<in> ?f ` set b" by (rule image_eqI [rotated])
      qed
    next
      assume h: "?f ` set a \<subseteq> ?f ` set b"
      show "\<forall>x \<in> set a. \<exists>y \<in> set b. port_Name y = port_Name x \<and> port_Port y = port_Port x \<and>
              port_TargetPort y = port_TargetPort x \<and> port_Protocol y = port_Protocol x"
      proof
        fix x assume "x \<in> set a"
        with h have "?f x \<in> ?f ` set b" by blast
        then obtain y where "y \<in> set b" "?f x = ?f y" by blast
        then show "\<exists>y \<in> set b. port_Name y = port_Name x \<and> port_Port y = port_Port x \<and>
              port_TargetPort y = port_TargetPort x \<and> port_Protocol y = port_Protocol x"
          by (intro bexI [of _ y]) simp_all
      qed
    qed
  have "\<And>a b. distinct (map port_Name a) \<Longrightarrow> distinct (map port_Name b) \<Longrightarrow>
          portsEqual (Some a) (Some b) \<Longrightarrow> portsEqual (Some b) (Some a)"
  proof -
    fix a b assume d: "distinct (map port_Name a)" "distinct (map port_Name b)"
      and e: "portsEqual (Some a) (Some b)"
    from e have l: "length a = length b" and s: "?f ` set a \<subseteq> ?f ` set b"
      by (simp_all add: portsEqual_distinct_iff [OF d] c)
    from same_content [OF d l _ s] have "?f ` set b \<subseteq> ?f ` set a" by simp
    with l show "portsEqual (Some b) (Some a)"
      by (simp add: portsEqual_distinct_iff [OF d(2,1)] c)
  qed
  with assms show ?thesis by blast
qed












text \<open>
  Claim C2 at inputs with a duplicate: the comparisons that turn a list into a map
  check the lengths of the lists and then only that every key of the first map is in
  the second. For two elements with different keys, \<open>[x, y]\<close> against \<open>[x, x]\<close> gives one
  answer and \<open>[x, x]\<close> against \<open>[x, y]\<close> the other, for \<open>TolerationsEqual\<close>, \<open>envVarsEqual\<close>,
  \<open>slicesEqual\<close> and \<open>portsEqual\<close>: none of these four is symmetric.
\<close>
theorem comparisons_asymmetric_on_duplicates:
  "(createTolerationKey x \<noteq> createTolerationKey y \<longrightarrow>
      TolerationsEqual (Some [x, y]) (Some [x, x]) \<and> \<not> TolerationsEqual (Some [x, x]) (Some [x, y])) \<and>
   (env_Name p \<noteq> env_Name q \<longrightarrow>
      envVarsEqual (Some [p, p]) (Some [p, q]) \<and> \<not> envVarsEqual (Some [p, q]) (Some [p, p])) \<and>
   (a \<noteq> b \<longrightarrow>
      slicesEqual (Some [a, a]) (Some [a, b]) \<and> \<not> slicesEqual (Some [a, b]) (Some [a, a])) \<and>
   (port_Name u \<noteq> port_Name v \<longrightarrow>
      portsEqual (Some [u, u]) (Some [u, v]) \<and> \<not> portsEqual (Some [u, v]) (Some [u, u]))"
proof -
  have "createTolerationKey x \<noteq> createTolerationKey y \<longrightarrow>
      TolerationsEqual (Some [x, y]) (Some [x, x]) \<and> \<not> TolerationsEqual (Some [x, x]) (Some [x, y])"
    by (auto simp add: TolerationsEqual_Some_iff)
  moreover have "env_Name p \<noteq> env_Name q \<longrightarrow>
      envVarsEqual (Some [p, p]) (Some [p, q]) \<and> \<not> envVarsEqual (Some [p, q]) (Some [p, p])"
    by (auto simp add: envVarsEqual_def len_def elems_def)
  moreover have "a \<noteq> b \<longrightarrow>
      slicesEqual (Some [a, a]) (Some [a, b]) \<and> \<not> slicesEqual (Some [a, b]) (Some [a, a])"
    by (auto simp add: slicesEqual_def len_def elems_def)
  moreover have "port_Name u \<noteq> port_Name v \<longrightarrow>
      portsEqual (Some [u, u]) (Some [u, v]) \<and> \<not> portsEqual (Some [u, v]) (Some [u, u])"
    by (auto simp add: portsEqual_def len_def elems_def)
  ultimately show ?thesis by blast
qed

theorem comparisons_asymmetric_on_duplicates_witness:
  "TolerationsEqual (Some [tolA, tolB]) (Some [tolA, tolA]) = True \<and>
   TolerationsEqual (Some [tolA, tolA]) (Some [tolA, tolB]) = False \<and>
   envVarsEqual (Some [envX, envX]) (Some [envX, envY]) = True \<and>
   envVarsEqual (Some [envX, envY]) (Some [envX, envX]) = False \<and>
   slicesEqual (Some [''a'', ''a'']) (Some [''a'', ''b'']) = True \<and>
   slicesEqual (Some [''a'', ''b'']) (Some [''a'', ''a'']) = False \<and>
   portsEqual (Some [portP, portP]) (Some [portP, portQ]) = True \<and>
   portsEqual (Some [portP, portQ]) (Some [portP, portP]) = False"
proof -
  have "createTolerationKey tolA \<noteq> createTolerationKey tolB"
    and "env_Name envX \<noteq> env_Name envY" and "''a'' \<noteq> ''b''"
    and "port_Name portP \<noteq> port_Name portQ"
    by (simp_all add: createTolerationKey_def tolA_def tolB_def envX_def envY_def portP_def portQ_def)
  with comparisons_asymmetric_on_duplicates
    [where x = tolA and y = tolB and p = envX and q = envY and a = "''a''" and b = "''b''"
       and u = portP and v = portQ]
  show ?thesis by simp
qed

text \<open>
  Claim C8, as the code has it. A toleration list compares equal to its reverse, and
  two lists that are both not nil, of the same length, compare equal when every
  element of the second has the comparison key of (or the same key, operator, value,
  effect and nil-ness of \<open>tolerationSeconds\<close> as) an element of the first. Two nil lists
  compare equal.
\<close>
theorem TolerationsEqual_permutation_invariant:
  "TolerationsEqual (map_option rev t) t \<and>
   (length a = length b \<and> (\<forall>y \<in> set b. \<exists>x \<in> set a. createTolerationKey x = createTolerationKey y)
      \<longrightarrow> TolerationsEqual (Some a) (Some b)) \<and>
   (length a = length b \<and> (\<forall>y \<in> set b. \<exists>x \<in> set a. tolerationIdentity x = tolerationIdentity y)
      \<longrightarrow> TolerationsEqual (Some a) (Some b)) \<and>
   TolerationsEqual None None"
proof -
  have "TolerationsEqual (map_option rev t) t"
  proof (cases t)
    case None
    then show ?thesis by (simp add: TolerationsEqual_def)
  next
    case (Some xs)
    then show ?thesis by (simp add: TolerationsEqual_Some_iff)
  qed
  moreover have "length a = length b \<and>
      (\<forall>y \<in> set b. \<exists>x \<in> set a. createTolerationKey x = createTolerationKey y)
      \<longrightarrow> TolerationsEqual (Some a) (Some b)"
    using TolerationsEqual_covered by blast
  moreover have "length a = length b \<and>
      (\<forall>y \<in> set b. \<exists>x \<in> set a. tolerationIdentity x = tolerationIdentity y)
      \<longrightarrow> TolerationsEqual (Some a) (Some b)"
    using TolerationsEqual_covered [of a b] tolerationIdentity_key by blast
  moreover have "TolerationsEqual None None" by (simp add: TolerationsEqual_def)
  ultimately show ?thesis by blast
qed

theorem TolerationsEqual_permutation_invariant_witness:
  "TolerationsEqual (Some [tolB, tolA]) (Some [tolA, tolB]) \<and>
   TolerationsEqual (Some [tolA, tolB, tol30]) (Some [tol60, tolA, tolB])"
proof -
  have "TolerationsEqual (map_option rev (Some [tolA, tolB])) (Some [tolA, tolB])"
    using TolerationsEqual_permutation_invariant [of "Some [tolA, tolB]"] by blast
  moreover have "length [tolA, tolB, tol30] = length [tol60, tolA, tolB] \<and>
      (\<forall>y \<in> set [tol60, tolA, tolB]. \<exists>x \<in> set [tolA, tolB, tol30].
         tolerationIdentity x = tolerationIdentity y)"
    by (simp add: tolerationIdentity_def tol30_def tol60_def)
  then have "TolerationsEqual (Some [tolA, tolB, tol30]) (Some [tol60, tolA, tolB])"
    using TolerationsEqual_permutation_invariant [of _ "[tolA, tolB, tol30]" "[tol60, tolA, tolB]"]
    by blast
  ultimately show ?thesis by simp
qed

text \<open>
  The nil list and the empty list have the same length, and every element of the
  empty list occurs in the nil list, yet they compare unequal.
\<close>
theorem tolerations_nil_vs_empty_counterexample:
  "len (None :: toleration slice) = len (Some []) \<and>
   list_all (\<lambda>y. list_ex (\<lambda>x. tolerationIdentity x = tolerationIdentity y) (elems None))
     (elems (Some [])) \<and>
   TolerationsEqual None (Some []) = False"
  by (simp add: len_def elems_def TolerationsEqual_def)


text \<open>
  Claim C9. \<open>mapsEqual\<close> of nil and the empty map is false in both orders, of nil and
  nil true, and of two maps that are not nil true exactly when they have the same keys
  with the same values.
\<close>
theorem mapsEqual_nil_and_empty:
  "mapsEqual None (Some fmempty) = False \<and>
   mapsEqual (Some fmempty) None = False \<and>
   mapsEqual None None = True \<and>
   mapsEqual (Some a) (Some b) =
     (fmdom a = fmdom b \<and> (\<forall>k. k |\<in>| fmdom a \<longrightarrow> fmlookup a k = fmlookup b k))"
proof -
  have "a = b \<longleftrightarrow> fmdom a = fmdom b \<and> (\<forall>k. k |\<in>| fmdom a \<longrightarrow> fmlookup a k = fmlookup b k)"
  proof
    assume "fmdom a = fmdom b \<and> (\<forall>k. k |\<in>| fmdom a \<longrightarrow> fmlookup a k = fmlookup b k)"
    then show "a = b"
      by (intro fmap_ext) (metis fmdom_notD)
  qed simp
  then show ?thesis
    by (simp add: mapsEqual_Some_iff) (simp add: mapsEqual_def)
qed

theorem mapsEqual_nil_and_empty_witness:
  "mapsEqual (Some mapOne) (Some mapOne) = True \<and> mapsEqual (Some mapOne) (Some mapTwo) = False \<and>
   mapsEqual (Some mapOne) (Some fmempty) = False"
  using mapsEqual_nil_and_empty [of mapOne mapOne] mapsEqual_nil_and_empty [of mapOne mapTwo]
    mapsEqual_nil_and_empty [of mapOne fmempty]
  by (simp add: mapOne_def mapTwo_def)

subsection \<open>The reconcilers\<close>

lemma returnOnError_cases:
  assumes "\<And>op e obj. r = (op, Some e, obj) \<Longrightarrow>
             Q \<lparr>out_Result = emptyResult, out_Err = Some e,
                out_Calls = calls @ [CallCreateOrUpdate m op (Some e)]\<rparr>"
    and "\<And>op obj. r = (op, None, obj) \<Longrightarrow> Q (continue (calls @ [CallCreateOrUpdate m op None]) obj)"
  shows "Q (returnOnError calls m r continue)"
proof (cases r)
  case (fields op err obj)
  with assms show ?thesis
    by (cases err) (simp_all add: returnOnError_def Let_def)
qed

lemma returnUnlessConflict_cases:
  assumes "\<And>op e obj. r = (op, Some e, obj) \<Longrightarrow> \<not> IsConflict e \<Longrightarrow>
             Q \<lparr>out_Result = emptyResult, out_Err = Some e,
                out_Calls = calls @ [CallCreateOrUpdate m op (Some e)]\<rparr>"
    and "\<And>op e obj. r = (op, Some e, obj) \<Longrightarrow> IsConflict e \<Longrightarrow>
             Q (continue (calls @ [CallCreateOrUpdate m op (Some e)]) obj)"
    and "\<And>op obj. r = (op, None, obj) \<Longrightarrow> Q (continue (calls @ [CallCreateOrUpdate m op None]) obj)"
  shows "Q (returnUnlessConflict calls m r continue)"
proof (cases r)
  case (fields op err obj)
  with assms show ?thesis
    by (cases err) (auto simp add: returnUnlessConflict_def Let_def)
qed

lemma reconcileManaged_abortsAtFailure:
  "abortsAtFailure (reconcileManaged w label oc [CallGetOvercommitLabel, CallGet])"
  unfolding reconcileManaged_def Let_def
  apply (cases "GenerateIssuer (w_resources w)")
   apply (simp add: abortsAtFailure_def)
  apply (simp only: option.case)
  apply (intro returnOnError_cases [where Q = abortsAtFailure]
               returnUnlessConflict_cases [where Q = abortsAtFailure])
  apply (simp_all add: abortsAtFailure_def reconcileStatus_def)
  done

lemma reconcileManaged_carriesOn:
  "carriesOn (reconcileManaged w label oc [CallGetOvercommitLabel, CallGet])"
  unfolding reconcileManaged_def Let_def
  apply (cases "GenerateIssuer (w_resources w)")
   apply (simp add: carriesOn_def)
  apply (simp only: option.case)
  apply (intro returnOnError_cases [where Q = carriesOn]
               returnUnlessConflict_cases [where Q = carriesOn])
  apply (simp_all add: carriesOn_def reconcileStatus_def tenSeconds_def mult.commute)
  done

lemma reconcileManaged_statusNeverFails:
  "statusNeverFails (reconcileManaged w label oc [CallGetOvercommitLabel, CallGet])"
  unfolding reconcileManaged_def Let_def
  apply (cases "GenerateIssuer (w_resources w)")
   apply (simp add: statusNeverFails_def)
  apply (simp only: option.case)
  apply (intro returnOnError_cases [where Q = statusNeverFails]
               returnUnlessConflict_cases [where Q = statusNeverFails])
  apply (simp_all add: statusNeverFails_def reconcileStatus_def tenSeconds_def mult.commute)
  done


lemma reconcileManaged_noUpdate:
  "noUpdate (reconcileManaged w label oc [CallGetOvercommitLabel, CallGet])"
  unfolding reconcileManaged_def Let_def
  apply (cases "GenerateIssuer (w_resources w)")
   apply (simp add: noUpdate_def)
  apply (simp only: option.case)
  apply (intro returnOnError_cases [where Q = noUpdate]
               returnUnlessConflict_cases [where Q = noUpdate])
  apply (simp_all add: noUpdate_def reconcileStatus_def)
  done

lemma Reconcile_abortsAtFailure: "abortsAtFailure (OvercommitReconciler_Reconcile w)"
proof -
  have "\<And>r e cs. list_all (\<lambda>c. \<not> isCreateOrUpdate c) cs \<Longrightarrow>
          abortsAtFailure \<lparr>out_Result = r, out_Err = e, out_Calls = cs\<rparr>"
    by (auto simp: abortsAtFailure_def list_all_iff split: call.splits option.splits)
  then show ?thesis
    by (simp add: OvercommitReconciler_Reconcile_def reconcileManaged_abortsAtFailure
        split: sum.split option.split prod.split)
qed

lemma Reconcile_carriesOn: "carriesOn (OvercommitReconciler_Reconcile w)"
proof -
  have "\<And>r e cs. list_all (\<lambda>c. \<not> isCreateOrUpdate c) cs \<Longrightarrow>
          carriesOn \<lparr>out_Result = r, out_Err = e, out_Calls = cs\<rparr>"
    by (auto simp: carriesOn_def list_all_iff split: call.splits option.splits managed.splits)
  then show ?thesis
    by (simp add: OvercommitReconciler_Reconcile_def reconcileManaged_carriesOn
        split: sum.split option.split prod.split)
qed

lemma Reconcile_statusNeverFails: "statusNeverFails (OvercommitReconciler_Reconcile w)"
proof -
  have "\<And>r e cs. list_all (\<lambda>c. c = CallGetOvercommitLabel \<or> c = CallGet \<or> (\<exists>x. c = CallUpdate x)) cs \<Longrightarrow>
          statusNeverFails \<lparr>out_Result = r, out_Err = e, out_Calls = cs\<rparr>"
    by (auto simp: statusNeverFails_def list_all_iff split: call.splits)
  then show ?thesis
    by (simp add: OvercommitReconciler_Reconcile_def reconcileManaged_statusNeverFails
        split: sum.split option.split prod.split)
qed

lemma Reconcile_noUpdate:
  "\<not> snd (removeLegacyFinalizers oc) \<Longrightarrow> w_GetOvercommitLabel w = Inr label \<Longrightarrow> w_Get w = Inr oc \<Longrightarrow>
     OvercommitReconciler_Reconcile w = reconcileManaged w label oc [CallGetOvercommitLabel, CallGet]"
  by (cases "removeLegacyFinalizers oc")
     (auto simp: OvercommitReconciler_Reconcile_def removeLegacyFinalizers_def legacyFinalizers_def
        split: if_splits)

lemma abortsAtFailureD:
  assumes "abortsAtFailure out" "CallCreateOrUpdate m op (Some e) \<in> set (out_Calls out)"
    "\<not> (m = PodWebhook \<and> IsConflict e)"
  shows "out_Err out = Some e \<and> out_Result out = emptyResult \<and>
         last (out_Calls out) = CallCreateOrUpdate m op (Some e)"
proof -
  from assms(1,2) have "(m = PodWebhook \<and> IsConflict e) \<or>
      (out_Err out = Some e \<and> out_Result out = emptyResult \<and>
       last (out_Calls out) = CallCreateOrUpdate m op (Some e))"
    unfolding abortsAtFailure_def list_all_iff
    by (auto dest: bspec [where x = "CallCreateOrUpdate m op (Some e)"])
  with assms(3) show ?thesis by blast
qed

lemma carriesOnD:
  assumes "carriesOn out" "CallCreateOrUpdate PodWebhook op (Some e) \<in> set (out_Calls out)"
    "IsConflict e"
  shows "\<exists>op' err'. nextCall (CallCreateOrUpdate PodWebhook op (Some e)) (out_Calls out)
                       = Some (CallCreateOrUpdate OcController op' err') \<and>
                     out_Err out = err' \<and> (err' = None \<longrightarrow> out_Result out = tenSeconds)"
proof -
  from assms(1,2) have "IsConflict e \<longrightarrow>
      (case nextCall (CallCreateOrUpdate PodWebhook op (Some e)) (out_Calls out) of
         Some (CallCreateOrUpdate OcController op' err') \<Rightarrow>
           out_Err out = err' \<and> (err' = None \<longrightarrow> out_Result out = tenSeconds)
       | _ \<Rightarrow> False)"
    unfolding carriesOn_def list_all_iff
    by (auto dest: bspec [where x = "CallCreateOrUpdate PodWebhook op (Some e)"])
  with assms(3) show ?thesis
    by (auto split: option.splits call.splits managed.splits)
qed

lemma statusNeverFailsD:
  assumes "statusNeverFails out" "CallUpdateOvercommitStatusSafely r \<in> set (out_Calls out)"
  shows "out_Err out = None \<and> out_Result out = tenSeconds"
  using assms unfolding statusNeverFails_def list_all_iff
  by (auto dest: bspec [where x = "CallUpdateOvercommitStatusSafely r"])

lemma removeLegacyFinalizers_eq:
  "removeLegacyFinalizers oc = (withoutLegacyFinalizers oc, hasLegacyFinalizer oc)"
proof -
  have id: "\<And>x xs. x \<notin> set xs \<Longrightarrow> filter (\<lambda>f. f \<noteq> x) xs = xs"
    by (auto simp: filter_id_conv)
  have id2: "\<And>x y xs. x \<notin> set xs \<Longrightarrow> filter (\<lambda>f. f \<noteq> x \<and> f \<noteq> y) xs = filter (\<lambda>f. f \<noteq> y) xs"
    by (rule filter_cong) auto
  have id3: "\<And>x y xs. y \<notin> set xs \<Longrightarrow> filter (\<lambda>f. f \<noteq> x \<and> f \<noteq> y) xs = filter (\<lambda>f. f \<noteq> x) xs"
    by (rule filter_cong) auto
  show ?thesis
    by (auto simp: removeLegacyFinalizers_def legacyFinalizers_def withoutLegacyFinalizers_def
        hasLegacyFinalizer_def ContainsFinalizer_def RemoveFinalizer_def id id2 id3)
qed

lemma cleanup_calls:
  "c \<in> set (snd (cleanupResources cw)) \<Longrightarrow> (\<exists>m. c = ClassCallDelete m) \<or> c = ClassCallGetOvercommitLabel"
  by (auto simp: cleanupResources_def deleteIgnoringNotFound_def Let_def
      split: prod.splits option.splits sum.splits if_splits)

lemma cleanup_calls':
  assumes "cleanupResources cw = (x, cs)"
  shows "ClassCallGetTotalClasses r \<notin> set cs" and "ClassCallUpdateResourcesStatus r \<notin> set cs"
  using cleanup_calls [of _ cw] assms by fastforce+

lemma reconcileClassManaged_metrics:
  assumes "ClassCallGetTotalClasses (Some e) \<in> set (out_Calls (reconcileClassManaged cw cs))"
    and "\<forall>r. ClassCallGetTotalClasses r \<notin> set cs" and "\<forall>r. ClassCallUpdateResourcesStatus r \<notin> set cs"
  shows "out_Result (reconcileClassManaged cw cs) = emptyResult \<and>
         out_Err (reconcileClassManaged cw cs) = None \<and>
         (\<forall>r. ClassCallUpdateResourcesStatus r \<notin> set (out_Calls (reconcileClassManaged cw cs))) \<and>
         (\<forall>m. ClassCallCreateOrUpdate m None \<in> set (out_Calls (reconcileClassManaged cw cs)))"
proof -
  have all: "\<And>m. m = ClassDeployment \<or> m = ClassService \<or> m = ClassCertificate \<or> m = ClassWebhookConfig"
    by (case_tac m) auto
  from assms show ?thesis
    apply (simp add: reconcileClassManaged_def Let_def split: if_splits)
    using all by metis
qed

lemma reconcileClassManaged_status:
  assumes "ClassCallUpdateResourcesStatus (Some e) \<in> set (out_Calls (reconcileClassManaged cw cs))"
    and "\<forall>r. ClassCallUpdateResourcesStatus r \<notin> set cs"
  shows "out_Result (reconcileClassManaged cw cs) = emptyResult \<and>
         out_Err (reconcileClassManaged cw cs) = Some e"
  using assms by (simp add: reconcileClassManaged_def Let_def split: if_splits)

lemma classReconcile_cases:
  "(\<exists>cs. OvercommitClassReconciler_Reconcile cw = reconcileClassManaged cw cs \<and>
          cs = [ClassCallGetOvercommitLabel, ClassCallGet, ClassCallGetOvercommit]) \<or>
   (\<forall>c \<in> set (out_Calls (OvercommitClassReconciler_Reconcile cw)).
      (\<forall>r. c \<noteq> ClassCallGetTotalClasses r) \<and> (\<forall>r. c \<noteq> ClassCallUpdateResourcesStatus r))"
  by (auto simp: OvercommitClassReconciler_Reconcile_def Let_def
      split: sum.splits option.splits prod.splits dest: cleanup_calls')



lemma exampleWorld_slots:
  "CreateOrUpdate (existing exampleIssuer) exampleIssuer (mutateIssuer exampleOvercommit)
     = (OperationResultNone, None, exampleIssuer)"
  "CreateOrUpdate (existing exampleCertificate) exampleCertificate
       (mutateCertificate exampleOvercommit exampleCertificate)
     = (OperationResultNone, None, exampleCertificate)"
  "CreateOrUpdate (existing exampleService) exampleService
       (mutateService exampleOvercommit exampleService)
     = (OperationResultNone, None, exampleService)"
  "CreateOrUpdate (existing exampleWebhook) exampleWebhook
       (mutateOvercommitClassWebhook exampleOvercommit exampleWebhook)
     = (OperationResultNone, None, exampleWebhook)"
  "CreateOrUpdate (existing exampleWebhook) exampleWebhook
       (mutatePodWebhook exampleOvercommit exampleWebhook)
     = (OperationResultNone, None, exampleWebhook)"
  by (simp_all add: CreateOrUpdate_def existing_def mutateIssuer_def mutateCertificate_def
      mutateService_def mutateOvercommitClassWebhook_def mutatePodWebhook_def
      CreationTimestamp_IsZero_def exampleIssuer_def exampleCertificate_def exampleService_def
      exampleWebhook_def exampleMeta_def)

lemma exampleDeployment_unchanged:
  "mutateDeployment exampleOvercommit ''/:'' exampleDeployment exampleDeployment = Inr exampleDeployment"
  by (simp add: mutateDeployment_def containers_def template_def container0_def updContainer0_def
      updTemplate_def exampleDeployment_def exampleMeta_def CreationTimestamp_IsZero_def
      envVarsEqual_def mapsEqual_def TolerationsEqual_def len_def elems_def Let_def)

lemma exampleWorld_deployment:
  "CreateOrUpdate (existing exampleDeployment) exampleDeployment
       (mutateDeployment exampleOvercommit ''/:'' exampleDeployment)
     = (OperationResultNone, None, exampleDeployment)"
  by (simp add: CreateOrUpdate_def existing_def exampleDeployment_unchanged)

lemma failing_slot:
  "\<not> IsNotFound e \<Longrightarrow> CreateOrUpdate (failing e) obj f = (OperationResultNone, Some e, obj)"
  by (simp add: CreateOrUpdate_def failing_def)

lemma exampleOvercommit_clean:
  "removeLegacyFinalizers exampleOvercommit = (exampleOvercommit, False)"
  by (simp add: removeLegacyFinalizers_eq withoutLegacyFinalizers_def hasLegacyFinalizer_def
      exampleOvercommit_def exampleMeta_def)

lemma status_ok: "updateOvercommitStatusSafely \<lparr>se_Get = (\<lambda>k. None), se_StatusUpdate = (\<lambda>k. None)\<rparr>
                   = (None, [Fetch 0, StatusWrite 0])"
  by (simp add: updateOvercommitStatusSafely_def statusLoop.simps [of _ 0] maxRetries_def
      updateOvercommitStatus_def)

lemma exampleWorld_run:
  "OvercommitReconciler_Reconcile exampleWorld =
     \<lparr>out_Result = tenSeconds, out_Err = None,
      out_Calls = [CallGetOvercommitLabel, CallGet,
        CallCreateOrUpdate Issuer OperationResultNone None,
        CallCreateOrUpdate OvercommitClassCertificate OperationResultNone None,
        CallCreateOrUpdate OvercommitClassDeployment OperationResultNone None,
        CallCreateOrUpdate OvercommitClassService OperationResultNone None,
        CallCreateOrUpdate OvercommitClassWebhook OperationResultNone None,
        CallCreateOrUpdate PodCertificate OperationResultNone None,
        CallCreateOrUpdate PodDeployment OperationResultNone None,
        CallCreateOrUpdate PodService OperationResultNone None,
        CallCreateOrUpdate PodWebhook OperationResultNone None,
        CallCreateOrUpdate OcController OperationResultNone None,
        CallUpdateOvercommitStatusSafely None]\<rparr>"
  by (simp add: OvercommitReconciler_Reconcile_def reconcileManaged_def exampleWorld_def
      exampleResources_def exampleOvercommit_clean returnOnError_def returnUnlessConflict_def
      exampleWorld_slots exampleWorld_deployment operatorImage_def reconcileStatus_def status_ok
      tenSeconds_def mult.commute)

subsection \<open>The safe status writer\<close>

lemma statusLoop_step:
  assumes "k < maxRetries - 1" "se_Get env k = None" "se_StatusUpdate env k = Some e" "IsConflict e"
  shows "statusLoop env k =
           (fst (statusLoop env (k + 1)),
            [Fetch k, StatusWrite k, Sleep (2 ^ k * 50 * Millisecond)] @ snd (statusLoop env (k + 1)))"
  using assms
  by (simp add: statusLoop.simps [of env k] updateOvercommitStatus_def split: prod.splits)

lemma statusLoop_first:
  "k < maxRetries \<Longrightarrow> \<exists>rest. snd (statusLoop env k) = Fetch k # rest"
  by (auto simp add: statusLoop.simps [of env k] split: option.splits prod.splits)

lemma statusLoop_fetches:
  "length (filter isFetch (snd (statusLoop env k))) \<le> maxRetries - k"
proof (induction env k rule: statusLoop.induct)
  case (1 env attempt)
  show ?case
  proof (cases "attempt < maxRetries - 1 \<and> se_Get env attempt = None \<and>
                 (\<exists>e. se_StatusUpdate env attempt = Some e \<and> IsConflict e)")
    case False
    then show ?thesis
      by (auto simp add: statusLoop.simps [of env attempt] updateOvercommitStatus_def
          split: if_splits option.splits)
  next
    case True
    then obtain e where k: "attempt < maxRetries - 1" and g: "se_Get env attempt = None"
      and u: "se_StatusUpdate env attempt = Some e" and c: "IsConflict e" by auto
    from "1.IH" [of e] k g u c
    have "length (filter isFetch (snd (statusLoop env (attempt + 1)))) \<le> maxRetries - (attempt + 1)"
      by (simp add: updateOvercommitStatus_def)
    with k show ?thesis
      by (simp add: statusLoop_step [OF k g u c])
  qed
qed

lemma retried_Suc:
  "retried env (Suc k) \<longleftrightarrow> retried env k \<and> se_Get env k = None \<and>
     (\<exists>e. se_StatusUpdate env k = Some e \<and> IsConflict e)"
  by (auto simp: retried_def split: option.splits)

lemma retryPrefix_Suc:
  "retryPrefix (Suc k) = retryPrefix k @ [Fetch k, StatusWrite k, Sleep (2 ^ k * 50 * Millisecond)]"
  by (simp add: retryPrefix_def)

lemma statusLoop_reach:
  "retried env k \<Longrightarrow> k < maxRetries \<Longrightarrow>
     statusLoop env 0 = (fst (statusLoop env k), retryPrefix k @ snd (statusLoop env k))"
proof (induction k)
  case 0
  then show ?case by (simp add: retryPrefix_def)
next
  case (Suc k)
  from Suc.prems obtain e where r: "retried env k" and g: "se_Get env k = None"
    and u: "se_StatusUpdate env k = Some e" and c: "IsConflict e"
    by (auto simp: retried_Suc)
  from Suc.prems have k: "k < maxRetries - 1" by simp
  from Suc.IH r k have "statusLoop env 0 = (fst (statusLoop env k), retryPrefix k @ snd (statusLoop env k))"
    by simp
  also note statusLoop_step [OF k g u c]
  finally show ?case by (simp add: retryPrefix_Suc)
qed

lemma statusLoop_write_after_fetch:
  "i < length (snd (statusLoop env k)) \<Longrightarrow> snd (statusLoop env k) ! i = StatusWrite n \<Longrightarrow>
     0 < i \<and> snd (statusLoop env k) ! (i - 1) = Fetch n"
proof (induction env k arbitrary: i rule: statusLoop.induct)
  case (1 env attempt)
  show ?case
  proof (cases "attempt < maxRetries - 1 \<and> se_Get env attempt = None \<and>
                 (\<exists>e. se_StatusUpdate env attempt = Some e \<and> IsConflict e)")
    case False
    with "1.prems" show ?thesis
      by (auto simp add: statusLoop.simps [of env attempt] updateOvercommitStatus_def
            nth_Cons' less_Suc_eq
          split: if_splits option.splits)
  next
    case True
    then obtain e where k: "attempt < maxRetries - 1" and g: "se_Get env attempt = None"
      and u: "se_StatusUpdate env attempt = Some e" and c: "IsConflict e" by auto
    note st = statusLoop_step [OF k g u c]
    have ih: "\<And>j. j < length (snd (statusLoop env (attempt + 1))) \<Longrightarrow>
               snd (statusLoop env (attempt + 1)) ! j = StatusWrite n \<Longrightarrow>
               0 < j \<and> snd (statusLoop env (attempt + 1)) ! (j - 1) = Fetch n"
      using "1.IH" [of e] k g u c by (simp add: updateOvercommitStatus_def)
    show ?thesis
    proof (cases "i < 3")
      case True
      with "1.prems" show ?thesis
        by (auto simp: st nth_Cons' less_Suc_eq numeral_3_eq_3 split: if_splits)
    next
      case False
      then have i3: "3 \<le> i" by simp
      with "1.prems" have a: "i - 3 < length (snd (statusLoop env (attempt + 1)))"
        and b: "snd (statusLoop env (attempt + 1)) ! (i - 3) = StatusWrite n"
        by (auto simp: st nth_Cons' numeral_3_eq_3 split: if_splits)
      from ih [OF a b] i3 show ?thesis
        by (auto simp: st nth_Cons' numeral_3_eq_3 split: if_splits)
    qed
  qed
qed

lemma statusLoop_at:
  assumes "k < maxRetries"
  shows "se_Get env k = Some e \<Longrightarrow> IsNotFound e \<Longrightarrow> statusLoop env k = (None, [Fetch k])"
    and "se_Get env k = Some e \<Longrightarrow> \<not> IsNotFound e \<Longrightarrow> statusLoop env k = (Some e, [Fetch k])"
    and "se_Get env k = None \<Longrightarrow> se_StatusUpdate env k = None \<Longrightarrow>
           statusLoop env k = (None, [Fetch k, StatusWrite k])"
    and "se_Get env k = None \<Longrightarrow> se_StatusUpdate env k = Some e \<Longrightarrow> \<not> IsConflict e \<Longrightarrow>
           statusLoop env k = (Some e, [Fetch k, StatusWrite k])"
  using assms
  by (simp_all add: statusLoop.simps [of env k] updateOvercommitStatus_def IgnoreNotFound_def)

lemma statusLoop_last:
  "se_Get env 4 = None \<Longrightarrow> se_StatusUpdate env 4 = Some e \<Longrightarrow>
     statusLoop env 4 = (Some e, [Fetch 4, StatusWrite 4])"
  by (simp add: statusLoop.simps [of env 4] updateOvercommitStatus_def maxRetries_def)

text \<open>
  Claim C6. The safe status writer fetches the object at most 5 times; every status
  write comes right after the fetch of the same attempt; and when attempts \<open>0, \<dots>, k - 1\<close>
  each ended in a conflict (\<open>k < 5\<close>), attempt \<open>k\<close> decides: a not-found fetch returns
  success without a write, another fetch error is returned, a successful write returns
  success, a non-conflict error of the write is returned with no further attempt, a
  conflict in the last attempt (\<open>k = 4\<close>) is returned, and a conflict in an earlier attempt
  is followed by a sleep of \<open>50 * 2 ^ k\<close> milliseconds and the fetch of attempt \<open>k + 1\<close>.
\<close>
theorem safe_status_writer:
  "length (filter isFetch (snd (updateOvercommitStatusSafely env))) \<le> 5 \<and>
   (\<forall>i n. i < length (snd (updateOvercommitStatusSafely env)) \<and>
           snd (updateOvercommitStatusSafely env) ! i = StatusWrite n \<longrightarrow>
           0 < i \<and> snd (updateOvercommitStatusSafely env) ! (i - 1) = Fetch n) \<and>
   (retried env k \<and> k < 5 \<longrightarrow>
      (\<forall>e. se_Get env k = Some e \<and> IsNotFound e \<longrightarrow>
           updateOvercommitStatusSafely env = (None, retryPrefix k @ [Fetch k])) \<and>
      (\<forall>e. se_Get env k = Some e \<and> \<not> IsNotFound e \<longrightarrow>
           updateOvercommitStatusSafely env = (Some e, retryPrefix k @ [Fetch k])) \<and>
      (se_Get env k = None \<and> se_StatusUpdate env k = None \<longrightarrow>
           updateOvercommitStatusSafely env = (None, retryPrefix k @ [Fetch k, StatusWrite k])) \<and>
      (\<forall>e. se_Get env k = None \<and> se_StatusUpdate env k = Some e \<and> \<not> IsConflict e \<longrightarrow>
           updateOvercommitStatusSafely env = (Some e, retryPrefix k @ [Fetch k, StatusWrite k])) \<and>
      (\<forall>e. se_Get env k = None \<and> se_StatusUpdate env k = Some e \<and> IsConflict e \<and> k = 4 \<longrightarrow>
           updateOvercommitStatusSafely env = (Some e, retryPrefix k @ [Fetch k, StatusWrite k])) \<and>
      (\<forall>e. se_Get env k = None \<and> se_StatusUpdate env k = Some e \<and> IsConflict e \<and> k < 4 \<longrightarrow>
           (\<exists>rest. snd (updateOvercommitStatusSafely env) =
              retryPrefix k @ [Fetch k, StatusWrite k, Sleep (50 * 2 ^ k * Millisecond),
                               Fetch (k + 1)] @ rest)))"
proof -
  have a: "length (filter isFetch (snd (updateOvercommitStatusSafely env))) \<le> 5"
    using statusLoop_fetches [of env 0] by (simp add: updateOvercommitStatusSafely_def maxRetries_def)
  have b: "\<forall>i n. i < length (snd (updateOvercommitStatusSafely env)) \<and>
           snd (updateOvercommitStatusSafely env) ! i = StatusWrite n \<longrightarrow>
           0 < i \<and> snd (updateOvercommitStatusSafely env) ! (i - 1) = Fetch n"
    using statusLoop_write_after_fetch [of _ env 0]
    by (simp add: updateOvercommitStatusSafely_def)
  have c: "retried env k \<and> k < 5 \<longrightarrow>
      (\<forall>e. se_Get env k = Some e \<and> IsNotFound e \<longrightarrow>
           updateOvercommitStatusSafely env = (None, retryPrefix k @ [Fetch k])) \<and>
      (\<forall>e. se_Get env k = Some e \<and> \<not> IsNotFound e \<longrightarrow>
           updateOvercommitStatusSafely env = (Some e, retryPrefix k @ [Fetch k])) \<and>
      (se_Get env k = None \<and> se_StatusUpdate env k = None \<longrightarrow>
           updateOvercommitStatusSafely env = (None, retryPrefix k @ [Fetch k, StatusWrite k])) \<and>
      (\<forall>e. se_Get env k = None \<and> se_StatusUpdate env k = Some e \<and> \<not> IsConflict e \<longrightarrow>
           updateOvercommitStatusSafely env = (Some e, retryPrefix k @ [Fetch k, StatusWrite k])) \<and>
      (\<forall>e. se_Get env k = None \<and> se_StatusUpdate env k = Some e \<and> IsConflict e \<and> k = 4 \<longrightarrow>
           updateOvercommitStatusSafely env = (Some e, retryPrefix k @ [Fetch k, StatusWrite k])) \<and>
      (\<forall>e. se_Get env k = None \<and> se_StatusUpdate env k = Some e \<and> IsConflict e \<and> k < 4 \<longrightarrow>
           (\<exists>rest. snd (updateOvercommitStatusSafely env) =
              retryPrefix k @ [Fetch k, StatusWrite k, Sleep (50 * 2 ^ k * Millisecond),
                               Fetch (k + 1)] @ rest))"
  proof
    assume h: "retried env k \<and> k < 5"
    then have k: "k < maxRetries" by (simp add: maxRetries_def)
    from h k have reach: "updateOvercommitStatusSafely env =
        (fst (statusLoop env k), retryPrefix k @ snd (statusLoop env k))"
      using statusLoop_reach [of env k] by (simp add: updateOvercommitStatusSafely_def)
    have step: "\<And>e. se_Get env k = None \<Longrightarrow> se_StatusUpdate env k = Some e \<Longrightarrow> IsConflict e \<Longrightarrow>
        k < 4 \<Longrightarrow> \<exists>rest. snd (statusLoop env k) =
          [Fetch k, StatusWrite k, Sleep (50 * 2 ^ k * Millisecond), Fetch (k + 1)] @ rest"
    proof -
      fix e assume g: "se_Get env k = None" and u: "se_StatusUpdate env k = Some e"
        and c: "IsConflict e" and k4: "k < 4"
      from k4 have k1: "k < maxRetries - 1" by (simp add: maxRetries_def)
      from k4 have "k + 1 < maxRetries" by (simp add: maxRetries_def)
      then obtain rest where "snd (statusLoop env (k + 1)) = Fetch (k + 1) # rest"
        using statusLoop_first by blast
      then show "\<exists>rest. snd (statusLoop env k) =
          [Fetch k, StatusWrite k, Sleep (50 * 2 ^ k * Millisecond), Fetch (k + 1)] @ rest"
        by (simp add: statusLoop_step [OF k1 g u c] mult.commute)
    qed
    show "(\<forall>e. se_Get env k = Some e \<and> IsNotFound e \<longrightarrow>
           updateOvercommitStatusSafely env = (None, retryPrefix k @ [Fetch k])) \<and>
      (\<forall>e. se_Get env k = Some e \<and> \<not> IsNotFound e \<longrightarrow>
           updateOvercommitStatusSafely env = (Some e, retryPrefix k @ [Fetch k])) \<and>
      (se_Get env k = None \<and> se_StatusUpdate env k = None \<longrightarrow>
           updateOvercommitStatusSafely env = (None, retryPrefix k @ [Fetch k, StatusWrite k])) \<and>
      (\<forall>e. se_Get env k = None \<and> se_StatusUpdate env k = Some e \<and> \<not> IsConflict e \<longrightarrow>
           updateOvercommitStatusSafely env = (Some e, retryPrefix k @ [Fetch k, StatusWrite k])) \<and>
      (\<forall>e. se_Get env k = None \<and> se_StatusUpdate env k = Some e \<and> IsConflict e \<and> k = 4 \<longrightarrow>
           updateOvercommitStatusSafely env = (Some e, retryPrefix k @ [Fetch k, StatusWrite k])) \<and>
      (\<forall>e. se_Get env k = None \<and> se_StatusUpdate env k = Some e \<and> IsConflict e \<and> k < 4 \<longrightarrow>
           (\<exists>rest. snd (updateOvercommitStatusSafely env) =
              retryPrefix k @ [Fetch k, StatusWrite k, Sleep (50 * 2 ^ k * Millisecond),
                               Fetch (k + 1)] @ rest))"
      using statusLoop_at [OF k, of env] step statusLoop_last [of env]
      by (auto simp add: reach maxRetries_def)
  qed
  from a b c show ?thesis by blast
qed

lemma retryPrefix_2:
  "retryPrefix 2 = [Fetch 0, StatusWrite 0, Sleep 50000000, Fetch 1, StatusWrite 1, Sleep 100000000]"
  by (simp add: retryPrefix_def upt_rec Millisecond_def)

lemma retryPrefix_4:
  "retryPrefix 4 = [Fetch 0, StatusWrite 0, Sleep 50000000, Fetch 1, StatusWrite 1, Sleep 100000000,
                    Fetch 2, StatusWrite 2, Sleep 200000000, Fetch 3, StatusWrite 3, Sleep 400000000]"
  by (simp add: retryPrefix_def upt_rec Millisecond_def)

theorem safe_status_writer_witness:
  "updateOvercommitStatusSafely (conflictsThen None (Some (Failure ''forbidden''))) =
     (Some (Failure ''forbidden''),
      [Fetch 0, StatusWrite 0, Sleep 50000000, Fetch 1, StatusWrite 1, Sleep 100000000,
       Fetch 2, StatusWrite 2]) \<and>
   updateOvercommitStatusSafely (conflictsThen (Some (NotFound ''cluster'')) None) =
     (None,
      [Fetch 0, StatusWrite 0, Sleep 50000000, Fetch 1, StatusWrite 1, Sleep 100000000, Fetch 2]) \<and>
   updateOvercommitStatusSafely alwaysConflict =
     (Some (Conflict ''modified''),
      [Fetch 0, StatusWrite 0, Sleep 50000000, Fetch 1, StatusWrite 1, Sleep 100000000,
       Fetch 2, StatusWrite 2, Sleep 200000000, Fetch 3, StatusWrite 3, Sleep 400000000,
       Fetch 4, StatusWrite 4])"
proof -
  have r1: "retried (conflictsThen None (Some (Failure ''forbidden''))) 2"
    and r2: "retried (conflictsThen (Some (NotFound ''cluster'')) None) 2"
    and r3: "retried alwaysConflict 4"
    by (simp_all add: retried_def conflictsThen_def alwaysConflict_def upt_rec)
  from r1 safe_status_writer [of "conflictsThen None (Some (Failure ''forbidden''))" 2]
  have "updateOvercommitStatusSafely (conflictsThen None (Some (Failure ''forbidden''))) =
     (Some (Failure ''forbidden''), retryPrefix 2 @ [Fetch 2, StatusWrite 2])"
    by (simp add: conflictsThen_def)
  moreover from r2 safe_status_writer [of "conflictsThen (Some (NotFound ''cluster'')) None" 2]
  have "updateOvercommitStatusSafely (conflictsThen (Some (NotFound ''cluster'')) None) =
     (None, retryPrefix 2 @ [Fetch 2])"
    by (simp add: conflictsThen_def)
  moreover from r3 safe_status_writer [of alwaysConflict 4]
  have "updateOvercommitStatusSafely alwaysConflict =
     (Some (Conflict ''modified''), retryPrefix 4 @ [Fetch 4, StatusWrite 4])"
    by (simp add: alwaysConflict_def)
  ultimately show ?thesis by (simp add: retryPrefix_2 retryPrefix_4)
qed

subsection \<open>The mutate functions\<close>

lemma upsertOwnerRef_mem: "ref \<in> set (upsertOwnerRef ref rs)"
  by (induction rs) auto

lemma SetControllerReference_uncontrolled:
  "uncontrolled m \<Longrightarrow> \<exists>m'. SetControllerReference ''Overcommit'' (oc_Meta oc) m = Inr m' \<and>
      ownedBy oc m' \<and> m' = m\<lparr>meta_OwnerReferences := meta_OwnerReferences m'\<rparr>"
  by (simp add: uncontrolled_def SetControllerReference_def ownedBy_def upsertOwnerRef_mem)

lemma container_facts:
  "template (updTemplate f d) = f (template d)"
  "dep_Meta (updTemplate f d) = dep_Meta d"
  "dep_Meta (updContainer0 g d) = dep_Meta d"
  "tpl_Annotations (template (updContainer0 g d)) = tpl_Annotations (template d)"
  "tpl_Labels (template (updContainer0 g d)) = tpl_Labels (template d)"
  "tpl_NodeSelector (template (updContainer0 g d)) = tpl_NodeSelector (template d)"
  "tpl_Tolerations (template (updContainer0 g d)) = tpl_Tolerations (template d)"
  "containers d \<noteq> [] \<Longrightarrow> container0 (updContainer0 g d) = g (container0 d)"
  "containers d \<noteq> [] \<Longrightarrow> containers (updContainer0 g d) \<noteq> []"
  "containers (updTemplate (\<lambda>t. t\<lparr>tpl_Annotations := x\<rparr>) d) = containers d"
  "containers (updTemplate (\<lambda>t. t\<lparr>tpl_Labels := x\<rparr>) d) = containers d"
  "containers (updTemplate (\<lambda>t. t\<lparr>tpl_NodeSelector := x\<rparr>) d) = containers d"
  "containers (updTemplate (\<lambda>t. t\<lparr>tpl_Tolerations := y\<rparr>) d) = containers d"
  by (auto simp: template_def updTemplate_def updContainer0_def container0_def containers_def
      split: list.splits)

lemma container0_updTemplate:
  "container0 (updTemplate (\<lambda>t. t\<lparr>tpl_Annotations := x\<rparr>) d) = container0 d"
  "container0 (updTemplate (\<lambda>t. t\<lparr>tpl_Labels := x\<rparr>) d) = container0 d"
  "container0 (updTemplate (\<lambda>t. t\<lparr>tpl_NodeSelector := x\<rparr>) d) = container0 d"
  "container0 (updTemplate (\<lambda>t. t\<lparr>tpl_Tolerations := y\<rparr>) d) = container0 d"
  by (simp_all add: container0_def container_facts)

lemma mutateDeployment_create:
  assumes "containers generated \<noteq> []" "CreationTimestamp_IsZero (dep_Meta d)"
    "uncontrolled (dep_Meta d)"
  shows "\<exists>d'. mutateDeployment oc img generated d = Inr d' \<and>
           dep_Spec d' = dep_Spec (desiredDeployment img generated) \<and>
           meta_Labels (dep_Meta d') = meta_Labels (dep_Meta (desiredDeployment img generated)) \<and>
           meta_Annotations (dep_Meta d') =
             meta_Annotations (dep_Meta (desiredDeployment img generated)) \<and>
           ownedBy oc (dep_Meta d')"
proof -
  obtain c cs where g: "containers generated = c # cs"
    using assms(1) by (cases "containers generated") auto
  let ?D = "desiredDeployment img generated"
  let ?m = "(dep_Meta d)\<lparr>meta_Labels := meta_Labels (dep_Meta ?D),
                           meta_Annotations := meta_Annotations (dep_Meta ?D)\<rparr>"
  have "uncontrolled ?m" using assms(3) by (simp add: uncontrolled_def)
  from SetControllerReference_uncontrolled [OF this, of oc]
  obtain m' where s: "SetControllerReference ''Overcommit'' (oc_Meta oc) ?m = Inr m'"
    and o: "ownedBy oc m'" and e: "m' = ?m\<lparr>meta_OwnerReferences := meta_OwnerReferences m'\<rparr>"
    by blast
  have "mutateDeployment oc img generated d = Inr (d\<lparr>dep_Spec := dep_Spec ?D, dep_Meta := m'\<rparr>)"
    using g assms(2) s by (simp add: mutateDeployment_def desiredDeployment_def Let_def)
  moreover have "meta_Labels m' = meta_Labels (dep_Meta ?D)"
    and "meta_Annotations m' = meta_Annotations (dep_Meta ?D)"
    by (subst e, simp)+
  ultimately show ?thesis using o by simp
qed

lemma mutateDeployment_patch:
  assumes g: "containers generated \<noteq> []" and z: "\<not> CreationTimestamp_IsZero (dep_Meta d)"
    and c: "containers d \<noteq> []" and m: "mutateDeployment oc img generated d = Inr d'"
  shows "ctr_Image (container0 d') = img"
    and "ctr_Env (container0 d') =
           (if envVarsEqual (ctr_Env (container0 generated)) (ctr_Env (container0 d))
            then ctr_Env (container0 d) else ctr_Env (container0 generated))"
    and "tpl_Annotations (template d') =
           (if mapsEqual (tpl_Annotations (template generated)) (tpl_Annotations (template d))
            then tpl_Annotations (template d) else tpl_Annotations (template generated))"
    and "tpl_Labels (template d') =
           (if mapsEqual (tpl_Labels (template generated)) (tpl_Labels (template d))
            then tpl_Labels (template d) else tpl_Labels (template generated))"
    and "tpl_NodeSelector (template d') =
           (if mapsEqual (tpl_NodeSelector (template generated)) (tpl_NodeSelector (template d))
            then tpl_NodeSelector (template d) else tpl_NodeSelector (template generated))"
    and "tpl_Tolerations (template d') =
           (if TolerationsEqual (tpl_Tolerations (template generated)) (tpl_Tolerations (template d))
            then tpl_Tolerations (template d) else tpl_Tolerations (template generated))"
proof -
  obtain g0 gs where g': "containers generated = g0 # gs"
    using g by (cases "containers generated") auto
  obtain c0 cs where c': "containers d = c0 # cs"
    using c by (cases "containers d") auto
  define D where "D = updContainer0 (\<lambda>c. c\<lparr>ctr_Image := img\<rparr>) generated"
  have D: "ctr_Image (container0 D) = img" "ctr_Env (container0 D) = ctr_Env (container0 generated)"
    using g by (simp_all add: D_def container_facts)
  define d1 where "d1 = (if ctr_Image (container0 D) \<noteq> ctr_Image (container0 d)
      then updContainer0 (\<lambda>c. c\<lparr>ctr_Image := ctr_Image (container0 D)\<rparr>) d else d)"
  define d2 where "d2 = (if \<not> envVarsEqual (ctr_Env (container0 D)) (ctr_Env (container0 d1))
      then updContainer0 (\<lambda>c. c\<lparr>ctr_Env := ctr_Env (container0 D)\<rparr>) d1 else d1)"
  define d3 where "d3 = (if \<not> mapsEqual (tpl_Annotations (template D)) (tpl_Annotations (template d2))
      then updTemplate (\<lambda>t. t\<lparr>tpl_Annotations := tpl_Annotations (template D)\<rparr>) d2 else d2)"
  define d4 where "d4 = (if \<not> mapsEqual (tpl_Labels (template D)) (tpl_Labels (template d3))
      then updTemplate (\<lambda>t. t\<lparr>tpl_Labels := tpl_Labels (template D)\<rparr>) d3 else d3)"
  define d5 where "d5 = (if \<not> mapsEqual (tpl_NodeSelector (template D)) (tpl_NodeSelector (template d4))
      then updTemplate (\<lambda>t. t\<lparr>tpl_NodeSelector := tpl_NodeSelector (template D)\<rparr>) d4 else d4)"
  define d6 where "d6 = (if \<not> TolerationsEqual (tpl_Tolerations (template D)) (tpl_Tolerations (template d5))
      then updTemplate (\<lambda>t. t\<lparr>tpl_Tolerations := tpl_Tolerations (template D)\<rparr>) d5 else d5)"
  have shape: "template d' = template d6 \<and> containers d' = containers d6"
    using m z g' c'
    by (auto simp add: mutateDeployment_def Let_def D_def d1_def d2_def d3_def d4_def d5_def d6_def
          SetControllerReference_def template_def containers_def
        split: if_splits option.splits sum.splits)
  then have c0: "container0 d' = container0 d6" by (simp add: container0_def)
  have n1: "containers d1 \<noteq> []" using c by (simp add: d1_def container_facts)
  have i1: "ctr_Image (container0 d1) = img" "ctr_Env (container0 d1) = ctr_Env (container0 d)"
    "tpl_Annotations (template d1) = tpl_Annotations (template d)"
    "tpl_Labels (template d1) = tpl_Labels (template d)"
    "tpl_NodeSelector (template d1) = tpl_NodeSelector (template d)"
    "tpl_Tolerations (template d1) = tpl_Tolerations (template d)"
    using c D by (auto simp add: d1_def container_facts)
  have n2: "containers d2 \<noteq> []" using n1 by (simp add: d2_def container_facts)
  have i2: "ctr_Image (container0 d2) = img"
    "ctr_Env (container0 d2) =
       (if envVarsEqual (ctr_Env (container0 generated)) (ctr_Env (container0 d))
        then ctr_Env (container0 d) else ctr_Env (container0 generated))"
    "tpl_Annotations (template d2) = tpl_Annotations (template d)"
    "tpl_Labels (template d2) = tpl_Labels (template d)"
    "tpl_NodeSelector (template d2) = tpl_NodeSelector (template d)"
    "tpl_Tolerations (template d2) = tpl_Tolerations (template d)"
    using n1 i1 D by (auto simp add: d2_def container_facts)
  have t: "tpl_Annotations (template D) = tpl_Annotations (template generated)"
    "tpl_Labels (template D) = tpl_Labels (template generated)"
    "tpl_NodeSelector (template D) = tpl_NodeSelector (template generated)"
    "tpl_Tolerations (template D) = tpl_Tolerations (template generated)"
    by (simp_all add: D_def container_facts)
  have i6: "container0 d6 = container0 d2"
    "tpl_Annotations (template d6) =
           (if mapsEqual (tpl_Annotations (template generated)) (tpl_Annotations (template d))
            then tpl_Annotations (template d) else tpl_Annotations (template generated))"
    "tpl_Labels (template d6) =
           (if mapsEqual (tpl_Labels (template generated)) (tpl_Labels (template d))
            then tpl_Labels (template d) else tpl_Labels (template generated))"
    "tpl_NodeSelector (template d6) =
           (if mapsEqual (tpl_NodeSelector (template generated)) (tpl_NodeSelector (template d))
            then tpl_NodeSelector (template d) else tpl_NodeSelector (template generated))"
    "tpl_Tolerations (template d6) =
           (if TolerationsEqual (tpl_Tolerations (template generated)) (tpl_Tolerations (template d))
            then tpl_Tolerations (template d) else tpl_Tolerations (template generated))"
    using i2 t
    by (simp_all add: d6_def d5_def d4_def d3_def container_facts container0_updTemplate)
  show "ctr_Image (container0 d') = img"
    and "ctr_Env (container0 d') =
           (if envVarsEqual (ctr_Env (container0 generated)) (ctr_Env (container0 d))
            then ctr_Env (container0 d) else ctr_Env (container0 generated))"
    using c0 i6(1) i2 by simp_all
  show "tpl_Annotations (template d') =
           (if mapsEqual (tpl_Annotations (template generated)) (tpl_Annotations (template d))
            then tpl_Annotations (template d) else tpl_Annotations (template generated))"
    and "tpl_Labels (template d') =
           (if mapsEqual (tpl_Labels (template generated)) (tpl_Labels (template d))
            then tpl_Labels (template d) else tpl_Labels (template generated))"
    and "tpl_NodeSelector (template d') =
           (if mapsEqual (tpl_NodeSelector (template generated)) (tpl_NodeSelector (template d))
            then tpl_NodeSelector (template d) else tpl_NodeSelector (template generated))"
    and "tpl_Tolerations (template d') =
           (if TolerationsEqual (tpl_Tolerations (template generated)) (tpl_Tolerations (template d))
            then tpl_Tolerations (template d) else tpl_Tolerations (template generated))"
    using shape i6 by simp_all
qed

lemma alwaysConflict_fails:
  "fst (updateOvercommitStatusSafely alwaysConflict) = Some (Conflict ''modified'')"
proof -
  have "retried alwaysConflict 4"
    by (simp add: retried_def alwaysConflict_def upt_rec)
  then have "statusLoop alwaysConflict 0 =
      (fst (statusLoop alwaysConflict 4), retryPrefix 4 @ snd (statusLoop alwaysConflict 4))"
    by (rule statusLoop_reach) (simp add: maxRetries_def)
  moreover have "statusLoop alwaysConflict 4 = (Some (Conflict ''modified''), [Fetch 4, StatusWrite 4])"
    by (rule statusLoop_last) (simp_all add: alwaysConflict_def)
  ultimately show ?thesis by (simp add: updateOvercommitStatusSafely_def)
qed

lemmas run_simps =
  OvercommitReconciler_Reconcile_def reconcileManaged_def exampleWorld_def
  exampleResources_def exampleOvercommit_clean returnOnError_def returnUnlessConflict_def
  exampleWorld_slots exampleWorld_deployment operatorImage_def reconcileStatus_def status_ok
  tenSeconds_def failing_slot

lemma podWebhookConflictWorld_run:
  "OvercommitReconciler_Reconcile podWebhookConflictWorld =
     \<lparr>out_Result = tenSeconds, out_Err = None,
      out_Calls = [CallGetOvercommitLabel, CallGet,
        CallCreateOrUpdate Issuer OperationResultNone None,
        CallCreateOrUpdate OvercommitClassCertificate OperationResultNone None,
        CallCreateOrUpdate OvercommitClassDeployment OperationResultNone None,
        CallCreateOrUpdate OvercommitClassService OperationResultNone None,
        CallCreateOrUpdate OvercommitClassWebhook OperationResultNone None,
        CallCreateOrUpdate PodCertificate OperationResultNone None,
        CallCreateOrUpdate PodDeployment OperationResultNone None,
        CallCreateOrUpdate PodService OperationResultNone None,
        CallCreateOrUpdate PodWebhook OperationResultNone (Some (Conflict ''pod webhook'')),
        CallCreateOrUpdate OcController OperationResultNone None,
        CallUpdateOvercommitStatusSafely None]\<rparr>"
  by (simp add: run_simps podWebhookConflictWorld_def mult.commute)

lemma classWebhookConflictWorld_run:
  "OvercommitReconciler_Reconcile classWebhookConflictWorld =
     \<lparr>out_Result = emptyResult, out_Err = Some (Conflict ''class webhook''),
      out_Calls = [CallGetOvercommitLabel, CallGet,
        CallCreateOrUpdate Issuer OperationResultNone None,
        CallCreateOrUpdate OvercommitClassCertificate OperationResultNone None,
        CallCreateOrUpdate OvercommitClassDeployment OperationResultNone None,
        CallCreateOrUpdate OvercommitClassService OperationResultNone None,
        CallCreateOrUpdate OvercommitClassWebhook OperationResultNone
          (Some (Conflict ''class webhook''))]\<rparr>"
  by (simp add: run_simps classWebhookConflictWorld_def)

lemma statusFailsWorld_run:
  "OvercommitReconciler_Reconcile statusFailsWorld =
     \<lparr>out_Result = tenSeconds, out_Err = None,
      out_Calls = [CallGetOvercommitLabel, CallGet,
        CallCreateOrUpdate Issuer OperationResultNone None,
        CallCreateOrUpdate OvercommitClassCertificate OperationResultNone None,
        CallCreateOrUpdate OvercommitClassDeployment OperationResultNone None,
        CallCreateOrUpdate OvercommitClassService OperationResultNone None,
        CallCreateOrUpdate OvercommitClassWebhook OperationResultNone None,
        CallCreateOrUpdate PodCertificate OperationResultNone None,
        CallCreateOrUpdate PodDeployment OperationResultNone None,
        CallCreateOrUpdate PodService OperationResultNone None,
        CallCreateOrUpdate PodWebhook OperationResultNone None,
        CallCreateOrUpdate OcController OperationResultNone None,
        CallUpdateOvercommitStatusSafely (Some (Conflict ''modified''))]\<rparr>"
  by (simp add: run_simps statusFailsWorld_def alwaysConflict_fails mult.commute)

lemma legacyOvercommit_stripped:
  "hasLegacyFinalizer legacyOvercommit"
  "meta_Finalizers (oc_Meta (withoutLegacyFinalizers legacyOvercommit)) = [''keep.me'']"
  by (simp_all add: hasLegacyFinalizer_def withoutLegacyFinalizers_def legacyOvercommit_def
      exampleOvercommit_def exampleMeta_def)

lemma classWorld_runs:
  "OvercommitClassReconciler_Reconcile statusFailsClassWorld =
     \<lparr>out_Result = emptyResult, out_Err = Some (Failure ''status update''),
      out_Calls = [ClassCallGetOvercommitLabel, ClassCallGet, ClassCallGetOvercommit,
        ClassCallCreateOrUpdate ClassDeployment None, ClassCallCreateOrUpdate ClassService None,
        ClassCallCreateOrUpdate ClassCertificate None,
        ClassCallCreateOrUpdate ClassWebhookConfig None,
        ClassCallGetTotalClasses None,
        ClassCallUpdateResourcesStatus (Some (Failure ''status update''))]\<rparr>"
  "OvercommitClassReconciler_Reconcile metricsFailClassWorld =
     \<lparr>out_Result = emptyResult, out_Err = None,
      out_Calls = [ClassCallGetOvercommitLabel, ClassCallGet, ClassCallGetOvercommit,
        ClassCallCreateOrUpdate ClassDeployment None, ClassCallCreateOrUpdate ClassService None,
        ClassCallCreateOrUpdate ClassCertificate None,
        ClassCallCreateOrUpdate ClassWebhookConfig None,
        ClassCallGetTotalClasses (Some (Failure ''list classes''))]\<rparr>"
  by (simp_all add: OvercommitClassReconciler_Reconcile_def reconcileClassManaged_def
      statusFailsClassWorld_def metricsFailClassWorld_def exampleClassWorld_def exampleClass_def
      exampleMeta_def exampleOvercommit_def DeletionTimestamp_IsZero_def ContainsFinalizer_def
      needsOwnerUpdate_def controllerRef_def Let_def)

text \<open>
  Claim C1, as the code has it. Singleton reconciler: a call of Reconcile that reaches
  the status writer returns no error and the result that requeues after ten seconds,
  whatever error \<open>r\<close> the status writer returned. Class reconciler: when
  \<open>updateResourcesStatus\<close> returns the error \<open>e\<close>, Reconcile returns \<open>e\<close> with the
  empty result.
\<close>
theorem status_update_failure_handling:
  "(CallUpdateOvercommitStatusSafely r \<in> set (out_Calls (OvercommitReconciler_Reconcile w)) \<longrightarrow>
      out_Err (OvercommitReconciler_Reconcile w) = None \<and>
      out_Result (OvercommitReconciler_Reconcile w) = tenSeconds) \<and>
   (ClassCallUpdateResourcesStatus (Some e) \<in> set (out_Calls (OvercommitClassReconciler_Reconcile cw)) \<longrightarrow>
      out_Err (OvercommitClassReconciler_Reconcile cw) = Some e \<and>
      out_Result (OvercommitClassReconciler_Reconcile cw) = emptyResult)"
proof -
  have "CallUpdateOvercommitStatusSafely r \<in> set (out_Calls (OvercommitReconciler_Reconcile w)) \<longrightarrow>
      out_Err (OvercommitReconciler_Reconcile w) = None \<and>
      out_Result (OvercommitReconciler_Reconcile w) = tenSeconds"
    using statusNeverFailsD [OF Reconcile_statusNeverFails] by blast
  moreover have "ClassCallUpdateResourcesStatus (Some e)
        \<in> set (out_Calls (OvercommitClassReconciler_Reconcile cw)) \<longrightarrow>
      out_Err (OvercommitClassReconciler_Reconcile cw) = Some e \<and>
      out_Result (OvercommitClassReconciler_Reconcile cw) = emptyResult"
  proof
    assume h: "ClassCallUpdateResourcesStatus (Some e)
        \<in> set (out_Calls (OvercommitClassReconciler_Reconcile cw))"
    with classReconcile_cases [of cw]
    have eq: "OvercommitClassReconciler_Reconcile cw =
        reconcileClassManaged cw [ClassCallGetOvercommitLabel, ClassCallGet, ClassCallGetOvercommit]"
      by blast
    from h show "out_Err (OvercommitClassReconciler_Reconcile cw) = Some e \<and>
      out_Result (OvercommitClassReconciler_Reconcile cw) = emptyResult"
      unfolding eq by (intro conjI) (simp_all add: reconcileClassManaged_status)
  qed
  ultimately show ?thesis by blast
qed

theorem status_update_failure_handling_witness:
  "out_Err (OvercommitReconciler_Reconcile statusFailsWorld) = None \<and>
   out_Result (OvercommitReconciler_Reconcile statusFailsWorld) = tenSeconds \<and>
   out_Err (OvercommitClassReconciler_Reconcile statusFailsClassWorld) = Some (Failure ''status update'') \<and>
   out_Result (OvercommitClassReconciler_Reconcile statusFailsClassWorld) = emptyResult"
  using status_update_failure_handling
    [of "Some (Conflict ''modified'')" statusFailsWorld "Failure ''status update''" statusFailsClassWorld]
  by (simp add: statusFailsWorld_run classWorld_runs)

theorem class_status_failure_counterexample:
  "ClassCallUpdateResourcesStatus (Some (Failure ''status update''))
     \<in> set (out_Calls (OvercommitClassReconciler_Reconcile statusFailsClassWorld)) \<and>
   out_Err (OvercommitClassReconciler_Reconcile statusFailsClassWorld) = Some (Failure ''status update'') \<and>
   out_Result (OvercommitClassReconciler_Reconcile statusFailsClassWorld) = emptyResult"
  by (simp add: classWorld_runs)

text \<open>
  Claim C5. In a call of Reconcile of the singleton reconciler, a \<open>CreateOrUpdate\<close> of the
  pod webhook configuration that returns a conflict error is followed at once by the
  \<open>CreateOrUpdate\<close> of the controller deployment, whose error is what Reconcile returns
  (with the ten-second requeue when there is none); a \<open>CreateOrUpdate\<close> of any other
  managed object that returns a conflict error is the last call, and Reconcile
  returns that error with the empty result.
\<close>
theorem conflict_swallowed_only_for_pod_webhook:
  "(CallCreateOrUpdate PodWebhook op (Some e) \<in> set (out_Calls (OvercommitReconciler_Reconcile w)) \<and>
    IsConflict e \<longrightarrow>
      (\<exists>op' err'.
         nextCall (CallCreateOrUpdate PodWebhook op (Some e))
             (out_Calls (OvercommitReconciler_Reconcile w))
           = Some (CallCreateOrUpdate OcController op' err') \<and>
         out_Err (OvercommitReconciler_Reconcile w) = err' \<and>
         (err' = None \<longrightarrow> out_Result (OvercommitReconciler_Reconcile w) = tenSeconds))) \<and>
   (CallCreateOrUpdate m op (Some e) \<in> set (out_Calls (OvercommitReconciler_Reconcile w)) \<and>
    m \<noteq> PodWebhook \<and> IsConflict e \<longrightarrow>
      out_Err (OvercommitReconciler_Reconcile w) = Some e \<and>
      out_Result (OvercommitReconciler_Reconcile w) = emptyResult \<and>
      last (out_Calls (OvercommitReconciler_Reconcile w)) = CallCreateOrUpdate m op (Some e))"
  using carriesOnD [OF Reconcile_carriesOn, of op e w]
    abortsAtFailureD [OF Reconcile_abortsAtFailure, of m op e w]
  by blast

theorem conflict_swallowed_only_for_pod_webhook_witness:
  "nextCall (CallCreateOrUpdate PodWebhook OperationResultNone (Some (Conflict ''pod webhook'')))
       (out_Calls (OvercommitReconciler_Reconcile podWebhookConflictWorld))
     = Some (CallCreateOrUpdate OcController OperationResultNone None) \<and>
   out_Err (OvercommitReconciler_Reconcile podWebhookConflictWorld) = None \<and>
   out_Result (OvercommitReconciler_Reconcile podWebhookConflictWorld) = tenSeconds \<and>
   out_Err (OvercommitReconciler_Reconcile classWebhookConflictWorld)
     = Some (Conflict ''class webhook'') \<and>
   out_Result (OvercommitReconciler_Reconcile classWebhookConflictWorld) = emptyResult"
  using conflict_swallowed_only_for_pod_webhook
      [where op = OperationResultNone and e = "Conflict ''pod webhook''"
         and w = podWebhookConflictWorld]
    conflict_swallowed_only_for_pod_webhook
      [where m = OvercommitClassWebhook and op = OperationResultNone
         and e = "Conflict ''class webhook''" and w = classWebhookConflictWorld]
  by (simp add: podWebhookConflictWorld_run classWebhookConflictWorld_run)

text \<open>
  Claim C7. For a call of Reconcile of the singleton reconciler that reads the label
  and the Overcommit object: the migration loop removes exactly the two legacy
  finalizers and reports whether one was present. If one was, the calls are the two
  reads and the update of the stripped object, with no \<open>CreateOrUpdate\<close>, and the result
  requeues after 1 second when the update succeeds (the error of the update is returned
  otherwise). If none was, the object is unchanged, Reconcile goes on to the managed
  objects and issues no update of the Overcommit object.
\<close>
theorem legacy_finalizer_migration:
  assumes "w_GetOvercommitLabel w = Inr label" and "w_Get w = Inr oc"
  shows "removeLegacyFinalizers oc = (withoutLegacyFinalizers oc, hasLegacyFinalizer oc) \<and>
    \<not> hasLegacyFinalizer (withoutLegacyFinalizers oc) \<and>
    (hasLegacyFinalizer oc \<longrightarrow>
       out_Calls (OvercommitReconciler_Reconcile w) =
         [CallGetOvercommitLabel, CallGet, CallUpdate (withoutLegacyFinalizers oc)] \<and>
       (w_Update w (withoutLegacyFinalizers oc) = None \<longrightarrow>
          out_Result (OvercommitReconciler_Reconcile w) = \<lparr>Requeue = False, RequeueAfter = 1 * Second\<rparr> \<and>
          out_Err (OvercommitReconciler_Reconcile w) = None) \<and>
       (\<forall>e. w_Update w (withoutLegacyFinalizers oc) = Some e \<longrightarrow>
          out_Result (OvercommitReconciler_Reconcile w) = emptyResult \<and>
          out_Err (OvercommitReconciler_Reconcile w) = Some e)) \<and>
    (\<not> hasLegacyFinalizer oc \<longrightarrow>
       withoutLegacyFinalizers oc = oc \<and>
       OvercommitReconciler_Reconcile w =
         reconcileManaged w label oc [CallGetOvercommitLabel, CallGet] \<and>
       noUpdate (OvercommitReconciler_Reconcile w))"
proof -
  have clean: "\<not> hasLegacyFinalizer (withoutLegacyFinalizers oc)"
    by (simp add: hasLegacyFinalizer_def withoutLegacyFinalizers_def)
  have id: "withoutLegacyFinalizers oc = oc" if "\<not> hasLegacyFinalizer oc"
  proof -
    from that have "filter (\<lambda>f. f \<noteq> ''overcommit.finalizer'' \<and> f \<noteq> ''webhook.finalizer'')
        (meta_Finalizers (oc_Meta oc)) = meta_Finalizers (oc_Meta oc)"
      by (auto simp add: hasLegacyFinalizer_def filter_id_conv)
    then show ?thesis by (simp add: withoutLegacyFinalizers_def)
  qed
  have run: "\<not> hasLegacyFinalizer oc \<Longrightarrow> OvercommitReconciler_Reconcile w =
         reconcileManaged w label oc [CallGetOvercommitLabel, CallGet]"
    using assms by (simp add: OvercommitReconciler_Reconcile_def removeLegacyFinalizers_eq id)
  have strip: "hasLegacyFinalizer oc \<Longrightarrow>
       out_Calls (OvercommitReconciler_Reconcile w) =
         [CallGetOvercommitLabel, CallGet, CallUpdate (withoutLegacyFinalizers oc)] \<and>
       (w_Update w (withoutLegacyFinalizers oc) = None \<longrightarrow>
          out_Result (OvercommitReconciler_Reconcile w) = \<lparr>Requeue = False, RequeueAfter = 1 * Second\<rparr> \<and>
          out_Err (OvercommitReconciler_Reconcile w) = None) \<and>
       (\<forall>e. w_Update w (withoutLegacyFinalizers oc) = Some e \<longrightarrow>
          out_Result (OvercommitReconciler_Reconcile w) = emptyResult \<and>
          out_Err (OvercommitReconciler_Reconcile w) = Some e)"
    using assms
    by (auto simp add: OvercommitReconciler_Reconcile_def removeLegacyFinalizers_eq
        split: option.splits)
  from clean id run strip reconcileManaged_noUpdate [of w label oc] show ?thesis
    by (auto simp add: removeLegacyFinalizers_eq)
qed

theorem legacy_finalizer_migration_witness:
  "meta_Finalizers (oc_Meta (fst (removeLegacyFinalizers legacyOvercommit))) = [''keep.me''] \<and>
   snd (removeLegacyFinalizers legacyOvercommit) = True \<and>
   out_Calls (OvercommitReconciler_Reconcile legacyWorld) =
     [CallGetOvercommitLabel, CallGet, CallUpdate (withoutLegacyFinalizers legacyOvercommit)] \<and>
   out_Result (OvercommitReconciler_Reconcile legacyWorld) =
     \<lparr>Requeue = False, RequeueAfter = 1000000000\<rparr> \<and>
   out_Err (OvercommitReconciler_Reconcile legacyWorld) = None \<and>
   removeLegacyFinalizers exampleOvercommit = (exampleOvercommit, False) \<and>
   noUpdate (OvercommitReconciler_Reconcile exampleWorld)"
proof -
  have a: "w_GetOvercommitLabel legacyWorld = Inr ''overcommit.inditex.dev/class''"
    and b: "w_Get legacyWorld = Inr legacyOvercommit"
    and c: "w_Update legacyWorld (withoutLegacyFinalizers legacyOvercommit) = None"
    and a': "w_GetOvercommitLabel exampleWorld = Inr ''overcommit.inditex.dev/class''"
    and b': "w_Get exampleWorld = Inr exampleOvercommit"
    by (simp_all add: legacyWorld_def exampleWorld_def)
  have d: "\<not> hasLegacyFinalizer exampleOvercommit"
    by (simp add: hasLegacyFinalizer_def exampleOvercommit_def exampleMeta_def)
  from legacy_finalizer_migration [OF a b] c legacyOvercommit_stripped
  have l: "meta_Finalizers (oc_Meta (fst (removeLegacyFinalizers legacyOvercommit))) = [''keep.me''] \<and>
     snd (removeLegacyFinalizers legacyOvercommit) = True \<and>
     out_Calls (OvercommitReconciler_Reconcile legacyWorld) =
       [CallGetOvercommitLabel, CallGet, CallUpdate (withoutLegacyFinalizers legacyOvercommit)] \<and>
     out_Result (OvercommitReconciler_Reconcile legacyWorld) =
       \<lparr>Requeue = False, RequeueAfter = 1000000000\<rparr> \<and>
     out_Err (OvercommitReconciler_Reconcile legacyWorld) = None"
    by (simp add: Second_def Millisecond_def)
  from legacy_finalizer_migration [OF a' b'] d
  have "removeLegacyFinalizers exampleOvercommit = (exampleOvercommit, False) \<and>
     noUpdate (OvercommitReconciler_Reconcile exampleWorld)"
    by metis
  with l show ?thesis by blast
qed

text \<open>
  Claim C10. In the class reconciler, when \<open>getTotalClasses\<close> returns an error, Reconcile
  returns the empty result and no error (the error variable still holds the nil of
  the last \<open>CreateOrUpdate\<close>), after the \<open>CreateOrUpdate\<close> of each of the four managed
  objects succeeded, and \<open>updateResourcesStatus\<close> is not called.
\<close>
theorem metrics_failure_returns_stale_nil:
  "ClassCallGetTotalClasses (Some e) \<in> set (out_Calls (OvercommitClassReconciler_Reconcile cw)) \<longrightarrow>
     out_Result (OvercommitClassReconciler_Reconcile cw) = emptyResult \<and>
     out_Err (OvercommitClassReconciler_Reconcile cw) = None \<and>
     (\<forall>r. ClassCallUpdateResourcesStatus r \<notin> set (out_Calls (OvercommitClassReconciler_Reconcile cw))) \<and>
     (\<forall>m. ClassCallCreateOrUpdate m None \<in> set (out_Calls (OvercommitClassReconciler_Reconcile cw)))"
proof
  assume h: "ClassCallGetTotalClasses (Some e) \<in> set (out_Calls (OvercommitClassReconciler_Reconcile cw))"
  with classReconcile_cases [of cw]
  have eq: "OvercommitClassReconciler_Reconcile cw =
      reconcileClassManaged cw [ClassCallGetOvercommitLabel, ClassCallGet, ClassCallGetOvercommit]"
    by blast
  from h show "out_Result (OvercommitClassReconciler_Reconcile cw) = emptyResult \<and>
     out_Err (OvercommitClassReconciler_Reconcile cw) = None \<and>
     (\<forall>r. ClassCallUpdateResourcesStatus r \<notin> set (out_Calls (OvercommitClassReconciler_Reconcile cw))) \<and>
     (\<forall>m. ClassCallCreateOrUpdate m None \<in> set (out_Calls (OvercommitClassReconciler_Reconcile cw)))"
    unfolding eq by (rule reconcileClassManaged_metrics) simp_all
qed

theorem metrics_failure_returns_stale_nil_witness:
  "out_Result (OvercommitClassReconciler_Reconcile metricsFailClassWorld) = emptyResult \<and>
   out_Err (OvercommitClassReconciler_Reconcile metricsFailClassWorld) = None \<and>
   ClassCallCreateOrUpdate ClassWebhookConfig None
     \<in> set (out_Calls (OvercommitClassReconciler_Reconcile metricsFailClassWorld)) \<and>
   ClassCallUpdateResourcesStatus None
     \<notin> set (out_Calls (OvercommitClassReconciler_Reconcile metricsFailClassWorld))"
  using metrics_failure_returns_stale_nil [of "Failure ''list classes''" metricsFailClassWorld]
  by (simp add: classWorld_runs)

lemma desiredDeployment_facts:
  assumes "containers generated \<noteq> []"
  shows "ctr_Image (container0 (desiredDeployment img generated)) = img"
    and "ctr_Env (container0 (desiredDeployment img generated)) = ctr_Env (container0 generated)"
    and "tpl_Annotations (template (desiredDeployment img generated)) = tpl_Annotations (template generated)"
    and "tpl_Labels (template (desiredDeployment img generated)) = tpl_Labels (template generated)"
    and "tpl_NodeSelector (template (desiredDeployment img generated)) = tpl_NodeSelector (template generated)"
    and "tpl_Tolerations (template (desiredDeployment img generated)) = tpl_Tolerations (template generated)"
  using assms by (simp_all add: desiredDeployment_def container_facts)

lemma mutate_existing:
  "\<not> CreationTimestamp_IsZero (svc_Meta s) \<Longrightarrow> mutateService oc S s = Inr s"
  "\<not> CreationTimestamp_IsZero (cert_Meta c) \<Longrightarrow> mutateCertificate oc C c = Inr c"
  "\<not> CreationTimestamp_IsZero (whc_Meta h) \<Longrightarrow> mutateOvercommitClassWebhook oc H h = Inr h"
  "\<not> CreationTimestamp_IsZero (whc_Meta h) \<Longrightarrow> mutatePodWebhook oc H h = Inr h"
  "\<not> CreationTimestamp_IsZero (iss_Meta i) \<Longrightarrow> mutateIssuer oc i = Inr i"
  by (simp_all add: mutateService_def mutateCertificate_def mutateOvercommitClassWebhook_def
      mutatePodWebhook_def mutateIssuer_def)

lemma mutateService_create:
  assumes "CreationTimestamp_IsZero (svc_Meta s)" "uncontrolled (svc_Meta s)"
  shows "\<exists>s'. mutateService oc S s = Inr s' \<and> svc_Spec s' = svc_Spec S \<and> ownedBy oc (svc_Meta s')"
  using assms SetControllerReference_uncontrolled [OF assms(2), of oc]
  by (auto simp add: mutateService_def)

lemma mutateCertificate_create:
  assumes "CreationTimestamp_IsZero (cert_Meta c)" "uncontrolled (cert_Meta c)"
  shows "\<exists>c'. mutateCertificate oc C c = Inr c' \<and> cert_Spec c' = cert_Spec C \<and>
           ownedBy oc (cert_Meta c')"
  using assms SetControllerReference_uncontrolled [OF assms(2), of oc]
  by (auto simp add: mutateCertificate_def)

lemma mutateIssuer_create:
  assumes "CreationTimestamp_IsZero (iss_Meta i)" "uncontrolled (iss_Meta i)"
  shows "\<exists>i'. mutateIssuer oc i = Inr i' \<and> iss_SelfSigned i' = iss_SelfSigned i \<and>
           ownedBy oc (iss_Meta i')"
  using assms SetControllerReference_uncontrolled [OF assms(2), of oc]
  by (auto simp add: mutateIssuer_def)

lemma mutatePodWebhook_create:
  assumes "CreationTimestamp_IsZero (whc_Meta h)" "uncontrolled (whc_Meta h)"
  shows "\<exists>h'. mutatePodWebhook oc H h = Inr h' \<and> whc_Webhooks h' = whc_Webhooks H \<and>
           ownedBy oc (whc_Meta h')"
  using assms SetControllerReference_uncontrolled [OF assms(2), of oc]
  by (auto simp add: mutatePodWebhook_def)

lemma mutateOvercommitClassWebhook_create:
  assumes "CreationTimestamp_IsZero (whc_Meta h)" "uncontrolled (whc_Meta h)"
  shows "\<exists>h'. mutateOvercommitClassWebhook oc H h = Inr h' \<and> whc_Webhooks h' = whc_Webhooks H \<and>
           meta_Annotations (whc_Meta h') = meta_Annotations (whc_Meta H) \<and>
           ownedBy oc (whc_Meta h')"
proof -
  let ?m = "(whc_Meta h)\<lparr>meta_Annotations := meta_Annotations (whc_Meta H)\<rparr>"
  have "uncontrolled ?m" using assms(2) by (simp add: uncontrolled_def)
  from SetControllerReference_uncontrolled [OF this, of oc]
  obtain m' where s: "SetControllerReference ''Overcommit'' (oc_Meta oc) ?m = Inr m'"
    and o: "ownedBy oc m'" and e: "m' = ?m\<lparr>meta_OwnerReferences := meta_OwnerReferences m'\<rparr>"
    by blast
  have "meta_Annotations m' = meta_Annotations (whc_Meta H)" by (subst e) simp
  with assms(1) s o show ?thesis
    by (simp add: mutateOvercommitClassWebhook_def)
qed

text \<open>
  Claim C4, as the code has it. The three deployments: a new deployment (zero creation
  timestamp) gets the spec, labels and annotations of the desired deployment and the
  owner reference; an existing one has its image equal to the desired image afterwards,
  and each of env, template annotations, template labels, node selector and tolerations
  equal to the desired value when the comparison reports a difference and left as it is
  otherwise. Services, certificates, the two webhook configurations and the issuer: a new
  object gets the desired spec (webhooks, and annotations for the class webhook
  configuration) and the owner reference; an existing object is returned unchanged.
\<close>
theorem desired_state_upsert:
  "(containers generated \<noteq> [] \<and> CreationTimestamp_IsZero (dep_Meta d) \<and> uncontrolled (dep_Meta d) \<longrightarrow>
      (\<exists>d'. mutateDeployment oc img generated d = Inr d' \<and>
         dep_Spec d' = dep_Spec (desiredDeployment img generated) \<and>
         meta_Labels (dep_Meta d') = meta_Labels (dep_Meta (desiredDeployment img generated)) \<and>
         meta_Annotations (dep_Meta d') =
           meta_Annotations (dep_Meta (desiredDeployment img generated)) \<and>
         ownedBy oc (dep_Meta d'))) \<and>
   (containers generated \<noteq> [] \<and> \<not> CreationTimestamp_IsZero (dep_Meta d) \<and> containers d \<noteq> [] \<and>
    mutateDeployment oc img generated d = Inr d' \<longrightarrow>
      ctr_Image (container0 d') = ctr_Image (container0 (desiredDeployment img generated)) \<and>
      ctr_Env (container0 d') =
        (if envVarsEqual (ctr_Env (container0 (desiredDeployment img generated)))
              (ctr_Env (container0 d))
         then ctr_Env (container0 d)
         else ctr_Env (container0 (desiredDeployment img generated))) \<and>
      tpl_Annotations (template d') =
        (if mapsEqual (tpl_Annotations (template (desiredDeployment img generated)))
              (tpl_Annotations (template d))
         then tpl_Annotations (template d)
         else tpl_Annotations (template (desiredDeployment img generated))) \<and>
      tpl_Labels (template d') =
        (if mapsEqual (tpl_Labels (template (desiredDeployment img generated)))
              (tpl_Labels (template d))
         then tpl_Labels (template d)
         else tpl_Labels (template (desiredDeployment img generated))) \<and>
      tpl_NodeSelector (template d') =
        (if mapsEqual (tpl_NodeSelector (template (desiredDeployment img generated)))
              (tpl_NodeSelector (template d))
         then tpl_NodeSelector (template d)
         else tpl_NodeSelector (template (desiredDeployment img generated))) \<and>
      tpl_Tolerations (template d') =
        (if TolerationsEqual (tpl_Tolerations (template (desiredDeployment img generated)))
              (tpl_Tolerations (template d))
         then tpl_Tolerations (template d)
         else tpl_Tolerations (template (desiredDeployment img generated)))) \<and>
   (CreationTimestamp_IsZero (svc_Meta s) \<and> uncontrolled (svc_Meta s) \<longrightarrow>
      (\<exists>s'. mutateService oc S s = Inr s' \<and> svc_Spec s' = svc_Spec S \<and> ownedBy oc (svc_Meta s'))) \<and>
   (\<not> CreationTimestamp_IsZero (svc_Meta s) \<longrightarrow> mutateService oc S s = Inr s) \<and>
   (CreationTimestamp_IsZero (cert_Meta c) \<and> uncontrolled (cert_Meta c) \<longrightarrow>
      (\<exists>c'. mutateCertificate oc C c = Inr c' \<and> cert_Spec c' = cert_Spec C \<and>
         ownedBy oc (cert_Meta c'))) \<and>
   (\<not> CreationTimestamp_IsZero (cert_Meta c) \<longrightarrow> mutateCertificate oc C c = Inr c) \<and>
   (CreationTimestamp_IsZero (whc_Meta h) \<and> uncontrolled (whc_Meta h) \<longrightarrow>
      (\<exists>h'. mutateOvercommitClassWebhook oc H h = Inr h' \<and> whc_Webhooks h' = whc_Webhooks H \<and>
         meta_Annotations (whc_Meta h') = meta_Annotations (whc_Meta H) \<and>
         ownedBy oc (whc_Meta h')) \<and>
      (\<exists>h'. mutatePodWebhook oc H h = Inr h' \<and> whc_Webhooks h' = whc_Webhooks H \<and>
         ownedBy oc (whc_Meta h'))) \<and>
   (\<not> CreationTimestamp_IsZero (whc_Meta h) \<longrightarrow>
      mutateOvercommitClassWebhook oc H h = Inr h \<and> mutatePodWebhook oc H h = Inr h) \<and>
   (CreationTimestamp_IsZero (iss_Meta i) \<and> uncontrolled (iss_Meta i) \<longrightarrow>
      (\<exists>i'. mutateIssuer oc i = Inr i' \<and> iss_SelfSigned i' = iss_SelfSigned i \<and>
         ownedBy oc (iss_Meta i'))) \<and>
   (\<not> CreationTimestamp_IsZero (iss_Meta i) \<longrightarrow> mutateIssuer oc i = Inr i)"
proof -
  have create: "containers generated \<noteq> [] \<and> CreationTimestamp_IsZero (dep_Meta d) \<and>
      uncontrolled (dep_Meta d) \<longrightarrow>
      (\<exists>d'. mutateDeployment oc img generated d = Inr d' \<and>
         dep_Spec d' = dep_Spec (desiredDeployment img generated) \<and>
         meta_Labels (dep_Meta d') = meta_Labels (dep_Meta (desiredDeployment img generated)) \<and>
         meta_Annotations (dep_Meta d') =
           meta_Annotations (dep_Meta (desiredDeployment img generated)) \<and>
         ownedBy oc (dep_Meta d'))"
    using mutateDeployment_create by blast
  have patch: "containers generated \<noteq> [] \<and> \<not> CreationTimestamp_IsZero (dep_Meta d) \<and>
      containers d \<noteq> [] \<and> mutateDeployment oc img generated d = Inr d' \<longrightarrow>
      ctr_Image (container0 d') = ctr_Image (container0 (desiredDeployment img generated)) \<and>
      ctr_Env (container0 d') =
        (if envVarsEqual (ctr_Env (container0 (desiredDeployment img generated)))
              (ctr_Env (container0 d))
         then ctr_Env (container0 d)
         else ctr_Env (container0 (desiredDeployment img generated))) \<and>
      tpl_Annotations (template d') =
        (if mapsEqual (tpl_Annotations (template (desiredDeployment img generated)))
              (tpl_Annotations (template d))
         then tpl_Annotations (template d)
         else tpl_Annotations (template (desiredDeployment img generated))) \<and>
      tpl_Labels (template d') =
        (if mapsEqual (tpl_Labels (template (desiredDeployment img generated)))
              (tpl_Labels (template d))
         then tpl_Labels (template d)
         else tpl_Labels (template (desiredDeployment img generated))) \<and>
      tpl_NodeSelector (template d') =
        (if mapsEqual (tpl_NodeSelector (template (desiredDeployment img generated)))
              (tpl_NodeSelector (template d))
         then tpl_NodeSelector (template d)
         else tpl_NodeSelector (template (desiredDeployment img generated))) \<and>
      tpl_Tolerations (template d') =
        (if TolerationsEqual (tpl_Tolerations (template (desiredDeployment img generated)))
              (tpl_Tolerations (template d))
         then tpl_Tolerations (template d)
         else tpl_Tolerations (template (desiredDeployment img generated)))"
  proof
    assume h: "containers generated \<noteq> [] \<and> \<not> CreationTimestamp_IsZero (dep_Meta d) \<and>
      containers d \<noteq> [] \<and> mutateDeployment oc img generated d = Inr d'"
    then have g: "containers generated \<noteq> []" and z: "\<not> CreationTimestamp_IsZero (dep_Meta d)"
      and c: "containers d \<noteq> []" and m: "mutateDeployment oc img generated d = Inr d'"
      by simp_all
    show "ctr_Image (container0 d') = ctr_Image (container0 (desiredDeployment img generated)) \<and>
      ctr_Env (container0 d') =
        (if envVarsEqual (ctr_Env (container0 (desiredDeployment img generated)))
              (ctr_Env (container0 d))
         then ctr_Env (container0 d)
         else ctr_Env (container0 (desiredDeployment img generated))) \<and>
      tpl_Annotations (template d') =
        (if mapsEqual (tpl_Annotations (template (desiredDeployment img generated)))
              (tpl_Annotations (template d))
         then tpl_Annotations (template d)
         else tpl_Annotations (template (desiredDeployment img generated))) \<and>
      tpl_Labels (template d') =
        (if mapsEqual (tpl_Labels (template (desiredDeployment img generated)))
              (tpl_Labels (template d))
         then tpl_Labels (template d)
         else tpl_Labels (template (desiredDeployment img generated))) \<and>
      tpl_NodeSelector (template d') =
        (if mapsEqual (tpl_NodeSelector (template (desiredDeployment img generated)))
              (tpl_NodeSelector (template d))
         then tpl_NodeSelector (template d)
         else tpl_NodeSelector (template (desiredDeployment img generated))) \<and>
      tpl_Tolerations (template d') =
        (if TolerationsEqual (tpl_Tolerations (template (desiredDeployment img generated)))
              (tpl_Tolerations (template d))
         then tpl_Tolerations (template d)
         else tpl_Tolerations (template (desiredDeployment img generated)))"
      unfolding desiredDeployment_facts [OF g]
      using mutateDeployment_patch [OF g z c m] by simp
  qed
  from create patch mutate_existing(1) [of s oc S] mutate_existing(2) [of c oc C]
    mutate_existing(3) [of h oc H] mutate_existing(4) [of h oc H] mutate_existing(5) [of i oc]
    mutateService_create [of s oc S] mutateCertificate_create [of c oc C]
    mutateOvercommitClassWebhook_create [of h oc H] mutatePodWebhook_create [of h oc H]
    mutateIssuer_create [of i oc]
  show ?thesis by blast
qed

lemma driftedDeployment_patched:
  "\<exists>d'. mutateDeployment exampleOvercommit ''/:'' exampleDeployment driftedDeployment = Inr d'"
  by (simp add: mutateDeployment_def containers_def template_def container0_def updContainer0_def
      updTemplate_def exampleDeployment_def driftedDeployment_def exampleMeta_def
      CreationTimestamp_IsZero_def envVarsEqual_def mapsEqual_def TolerationsEqual_def len_def
      elems_def Let_def SetControllerReference_def)

theorem desired_state_upsert_witness:
  "(\<exists>d'. mutateDeployment exampleOvercommit ''registry/operator:2'' exampleDeployment freshDeployment
            = Inr d' \<and>
          ctr_Image (container0 d') = ''registry/operator:2'' \<and> ownedBy exampleOvercommit (dep_Meta d')) \<and>
   (\<exists>d'. mutateDeployment exampleOvercommit ''/:'' exampleDeployment driftedDeployment = Inr d' \<and>
          ctr_Image (container0 d') = ''/:'' \<and> ctr_Env (container0 d') = None \<and>
          tpl_Annotations (template d') = None \<and> tpl_Tolerations (template d') = None) \<and>
   mutateService exampleOvercommit exampleService driftedService = Inr driftedService \<and>
   mutateIssuer exampleOvercommit exampleIssuer = Inr exampleIssuer"
proof -
  have g: "containers exampleDeployment \<noteq> []"
    and f: "CreationTimestamp_IsZero (dep_Meta freshDeployment)" "uncontrolled (dep_Meta freshDeployment)"
    and z: "\<not> CreationTimestamp_IsZero (dep_Meta driftedDeployment)"
    and c: "containers driftedDeployment \<noteq> []"
    and s: "\<not> CreationTimestamp_IsZero (svc_Meta driftedService)"
    and i: "\<not> CreationTimestamp_IsZero (iss_Meta exampleIssuer)"
    by (simp_all add: containers_def template_def exampleDeployment_def freshDeployment_def
        driftedDeployment_def driftedService_def exampleService_def exampleIssuer_def freshMeta_def
        exampleMeta_def CreationTimestamp_IsZero_def uncontrolled_def)
  have v: "ctr_Image (container0 (desiredDeployment ''registry/operator:2'' exampleDeployment))
             = ''registry/operator:2''"
    "ctr_Env (container0 (desiredDeployment ''/:'' exampleDeployment)) = None"
    "ctr_Image (container0 (desiredDeployment ''/:'' exampleDeployment)) = ''/:''"
    "tpl_Annotations (template (desiredDeployment ''/:'' exampleDeployment)) = None"
    "tpl_Tolerations (template (desiredDeployment ''/:'' exampleDeployment)) = None"
    "ctr_Env (container0 driftedDeployment) = Some [envX]"
    "tpl_Annotations (template driftedDeployment) = Some mapOne"
    "tpl_Tolerations (template driftedDeployment) = Some [tolA]"
    by (simp_all add: desiredDeployment_def container0_def containers_def template_def
        updContainer0_def updTemplate_def exampleDeployment_def driftedDeployment_def)
  have k: "\<not> envVarsEqual None (Some [envX])" "\<not> mapsEqual None (Some mapOne)"
    "\<not> TolerationsEqual None (Some [tolA])"
    by (simp_all add: envVarsEqual_def mapsEqual_def TolerationsEqual_def len_def)
  from desired_state_upsert
    [where generated = exampleDeployment and d = freshDeployment and oc = exampleOvercommit
       and img = "''registry/operator:2''"] g f
  obtain d1 where "mutateDeployment exampleOvercommit ''registry/operator:2'' exampleDeployment
      freshDeployment = Inr d1"
    and "dep_Spec d1 = dep_Spec (desiredDeployment ''registry/operator:2'' exampleDeployment)"
    and "ownedBy exampleOvercommit (dep_Meta d1)"
    by blast
  then have one: "\<exists>d'. mutateDeployment exampleOvercommit ''registry/operator:2'' exampleDeployment
        freshDeployment = Inr d' \<and>
      ctr_Image (container0 d') = ''registry/operator:2'' \<and> ownedBy exampleOvercommit (dep_Meta d')"
    using v(1) by (auto simp add: container0_def containers_def template_def)
  from driftedDeployment_patched obtain d2
    where m: "mutateDeployment exampleOvercommit ''/:'' exampleDeployment driftedDeployment = Inr d2"
    by blast
  from desired_state_upsert
    [where generated = exampleDeployment and d = driftedDeployment and oc = exampleOvercommit
       and img = "''/:''" and d' = d2] g z c m
  have "ctr_Image (container0 d2) = ''/:'' \<and> ctr_Env (container0 d2) = None \<and>
      tpl_Annotations (template d2) = None \<and> tpl_Tolerations (template d2) = None"
    by (simp add: v k)
  with m have two: "\<exists>d'. mutateDeployment exampleOvercommit ''/:'' exampleDeployment driftedDeployment
        = Inr d' \<and>
      ctr_Image (container0 d') = ''/:'' \<and> ctr_Env (container0 d') = None \<and>
      tpl_Annotations (template d') = None \<and> tpl_Tolerations (template d') = None"
    by blast
  from desired_state_upsert
    [where s = driftedService and oc = exampleOvercommit and S = exampleService and i = exampleIssuer]
    s i
  have "mutateService exampleOvercommit exampleService driftedService = Inr driftedService \<and>
    mutateIssuer exampleOvercommit exampleIssuer = Inr exampleIssuer"
    by blast
  with one two show ?thesis by blast
qed

theorem existing_service_not_patched_counterexample:
  "\<not> CreationTimestamp_IsZero (svc_Meta driftedService) \<and>
   mapsEqual (sspec_Selector (svc_Spec exampleService)) (sspec_Selector (svc_Spec driftedService))
     = False \<and>
   mutateService exampleOvercommit exampleService driftedService = Inr driftedService \<and>
   sspec_Selector (svc_Spec driftedService) \<noteq> sspec_Selector (svc_Spec exampleService) \<and>
   CreateOrUpdate (existing driftedService) exampleService
       (mutateService exampleOvercommit exampleService)
     = (OperationResultNone, None, driftedService)"
proof -
  have ne: "mapOne \<noteq> mapTwo"
  proof
    assume "mapOne = mapTwo"
    then have "fmlookup mapOne ''app'' = fmlookup mapTwo ''app''" by simp
    then show False by (simp add: mapOne_def mapTwo_def)
  qed
  have z: "\<not> CreationTimestamp_IsZero (svc_Meta driftedService)"
    by (simp add: driftedService_def exampleService_def exampleMeta_def CreationTimestamp_IsZero_def)
  have m: "mutateService exampleOvercommit exampleService driftedService = Inr driftedService"
    using z by (simp add: mutateService_def)
  have sel: "sspec_Selector (svc_Spec exampleService) = Some mapOne"
    "sspec_Selector (svc_Spec driftedService) = Some mapTwo"
    by (simp_all add: driftedService_def exampleService_def)
  from z m sel ne show ?thesis
    by (simp add: mapsEqual_Some_iff CreateOrUpdate_def existing_def)
qed

subsection \<open>Which changes the comparisons notice\<close>




end
